theory Spec2Isabelle
  imports Main
begin

section \<open>JavaScript values, exceptions and promises\<close>

text \<open>
  The request layer of \<^verbatim>\<open>static/js/app.js\<close> handles whatever the backend sends, so the
  payloads are modelled as untyped JavaScript values, as \<^verbatim>\<open>JSON.parse\<close> yields them. The
  source tests the numbers of a payload and prints them, and it hands them to
  \<^verbatim>\<open>formatFileSize\<close>, but it does not compute with them: a number is given by whether
  it is other than zero and by the string it prints as (\<^verbatim>\<open>1e+21\<close>, \<^verbatim>\<open>0.5\<close>). A string
  is a list of bytes (UTF-8; the source only concatenates strings), an object is the list of
  its own properties. Messages of the engine are those of V8.
\<close>

datatype jsval =
    Undefined
  | Null
  | Bool bool
  | Num bool string
  | Str string
  | Arr "jsval list"
  | Obj "(string \<times> jsval) list"

datatype exn = Error string | TypeError string | SyntaxError string

text \<open>\<^verbatim>\<open>error.message\<close>\<close>

fun message :: "exn \<Rightarrow> string" where
  "message (Error m) = m"
| "message (TypeError m) = m"
| "message (SyntaxError m) = m"

text \<open>The truth value of a JavaScript value, as taken by \<^verbatim>\<open>!\<close>, \<^verbatim>\<open>||\<close>, \<^verbatim>\<open>&&\<close>, \<^verbatim>\<open>?:\<close> and \<^verbatim>\<open>if\<close>.\<close>

fun truthy :: "jsval \<Rightarrow> bool" where
  "truthy Undefined = False"
| "truthy Null = False"
| "truthy (Bool b) = b"
| "truthy (Num nonzero printed) = nonzero"
| "truthy (Str s) = (s \<noteq> [])"
| "truthy (Arr xs) = True"
| "truthy (Obj kvs) = True"

fun decimal :: "nat \<Rightarrow> string" where
  "decimal n = (if n < 10 then [''0123456789'' ! n]
                else decimal (n div 10) @ [''0123456789'' ! (n mod 10)])"

declare decimal.simps [simp del]

fun join :: "string \<Rightarrow> string list \<Rightarrow> string" where
  "join sep [] = []"
| "join sep [s] = s"
| "join sep (s # t # ss) = s @ sep @ join sep (t # ss)"

definition and_then :: "exn + 'a \<Rightarrow> ('a \<Rightarrow> exn + 'b) \<Rightarrow> exn + 'b" where
  "and_then r f = (case r of Inl e \<Rightarrow> Inl e | Inr a \<Rightarrow> f a)"

text \<open>The results of a list of computations, or the first exception among them.\<close>

fun collect :: "(exn + 'a) list \<Rightarrow> exn + 'a list" where
  "collect [] = Inr []"
| "collect (r # rs) = and_then r (\<lambda>a. and_then (collect rs) (\<lambda>as. Inr (a # as)))"

definition not_primitive :: exn where
  "not_primitive = TypeError ''Cannot convert object to primitive value''"

text \<open>
  The string a value becomes in a template literal and as the argument of
  \<^verbatim>\<open>new Error(...)\<close>. An array prints its elements separated by commas, with \<^verbatim>\<open>null\<close>
  and \<^verbatim>\<open>undefined\<close> elements printed as the empty string. An object prints through its
  \<^verbatim>\<open>toString\<close> method: the inherited one gives \<^verbatim>\<open>[object Object]\<close>; an object of a
  payload that has a \<^verbatim>\<open>toString\<close> property of its own has no such method (no value of a
  payload is a function), and the conversion throws.
\<close>

fun to_string :: "jsval \<Rightarrow> exn + string" where
  "to_string Undefined = Inr ''undefined''"
| "to_string Null = Inr ''null''"
| "to_string (Bool b) = Inr (if b then ''true'' else ''false'')"
| "to_string (Num nonzero printed) = Inr printed"
| "to_string (Str s) = Inr s"
| "to_string (Arr xs) =
     and_then
       (collect (map (\<lambda>x. if x = Undefined \<or> x = Null then Inr [] else to_string x) xs))
       (\<lambda>printed. Inr (join '','' printed))"
| "to_string (Obj kvs) =
     (case map_of kvs ''toString'' of
        None \<Rightarrow> Inr ''[object Object]''
      | Some v \<Rightarrow> Inl not_primitive)"

text \<open>
  Reading the property \<open>p\<close> of a value, \<^verbatim>\<open>v.p\<close>: a \<^verbatim>\<open>TypeError\<close> on
  \<^verbatim>\<open>null\<close> and \<^verbatim>\<open>undefined\<close>, \<^verbatim>\<open>undefined\<close> where the value has no such property.
  Arrays have their length and their elements; the properties strings have by themselves
  (length, characters) are never read by the source and are left out, as are inherited
  properties.
\<close>

definition quoted :: "string \<Rightarrow> string" where
  "quoted s = [CHR 0x27] @ s @ [CHR 0x27]"

text \<open>The \<^verbatim>\<open>TypeError\<close> of an access to a property of \<^verbatim>\<open>null\<close> or \<^verbatim>\<open>undefined\<close>.\<close>

definition cannot :: "string \<Rightarrow> string \<Rightarrow> string \<Rightarrow> string \<Rightarrow> exn" where
  "cannot verb base verbing p =
     TypeError (''Cannot '' @ verb @ '' properties of '' @ base
                @ '' ('' @ verbing @ '' '' @ quoted p @ '')'')"

fun get_prop :: "jsval \<Rightarrow> string \<Rightarrow> exn + jsval" where
  "get_prop Undefined p =
     Inl (cannot ''read'' ''undefined'' ''reading'' p)"
| "get_prop Null p =
     Inl (cannot ''read'' ''null'' ''reading'' p)"
| "get_prop (Obj kvs) p = Inr (case map_of kvs p of Some v \<Rightarrow> v | None \<Rightarrow> Undefined)"
| "get_prop (Arr xs) p =
     Inr (if p = ''length'' then Num (xs \<noteq> []) (decimal (length xs))
          else case find (\<lambda>i. decimal i = p) [0..<length xs] of
                 Some i \<Rightarrow> xs ! i
               | None \<Rightarrow> Undefined)"
| "get_prop v p = Inr Undefined"

text \<open>
  A promise is given by the time at which it settles and by how it settles. Times are
  milliseconds on the clock of the event loop; a timer fires exactly when it is due.
\<close>

datatype 'a settled = Fulfilled 'a | Rejected exn

datatype 'a promise = Promise nat "'a settled"

text \<open>
  \<^verbatim>\<open>Promise.all([p, q])\<close>: fulfilled once both are, rejected as soon as one of them is,
  without waiting for the other.
\<close>

fun promise_all :: "'a promise \<Rightarrow> 'b promise \<Rightarrow> ('a \<times> 'b) promise" where
  "promise_all (Promise t (Fulfilled a)) (Promise u (Fulfilled b)) =
     Promise (max t u) (Fulfilled (a, b))"
| "promise_all (Promise t (Rejected e)) (Promise u (Fulfilled b)) = Promise t (Rejected e)"
| "promise_all (Promise t (Fulfilled a)) (Promise u (Rejected e)) = Promise u (Rejected e)"
| "promise_all (Promise t (Rejected e)) (Promise u (Rejected f)) =
     (if t \<le> u then Promise t (Rejected e) else Promise u (Rejected f))"

section \<open>The page and the network\<close>

record element =
  classList :: "string list"
  innerHTML :: string
  textContent :: string
  elem_value :: string
  select_options :: "string list"

text \<open>The elements of the page by id. An element is referred to by its id.\<close>

type_synonym dom = "string \<rightharpoonup> element"

definition getElementById :: "dom \<Rightarrow> string \<Rightarrow> string option" where
  "getElementById d i = (case d i of Some e \<Rightarrow> Some i | None \<Rightarrow> None)"

record request =
  req_method :: string
  req_headers :: "(string \<times> string) list"
  req_body :: "jsval option"

text \<open>
  A response as \<^verbatim>\<open>fetch\<close> fulfils with: \<^verbatim>\<open>ok\<close>, \<^verbatim>\<open>status\<close>, and what
  \<^verbatim>\<open>json()\<close> returns, a promise whose time is counted from the call of \<^verbatim>\<open>json()\<close>.
\<close>

record 'a response =
  ok :: bool
  status :: nat
  json :: "'a promise"

text \<open>The backend and the network between: what \<^verbatim>\<open>fetch(endpoint, options)\<close> returns.\<close>

type_synonym network = "string \<Rightarrow> request \<Rightarrow> jsval response promise"

text \<open>What a function does to the page, the network, the console and the user, in order.\<close>

datatype effect =
    SetTimeout nat
  | Fetch string request
  | ClassListAdd string string
  | ClassListRemove string string
  | SetInnerHTML string string
  | ConsoleError string exn
  | Confirm string
  | Alert string

definition update_element :: "string \<Rightarrow> (element \<Rightarrow> element) \<Rightarrow> dom \<Rightarrow> dom" where
  "update_element i f d = (case d i of None \<Rightarrow> d | Some e \<Rightarrow> d(i \<mapsto> f e))"

text \<open>
  \<^verbatim>\<open>classList\<close> is an ordered set of tokens: adding a token it has changes nothing, removing
  a token removes it altogether.
\<close>

fun apply_effect :: "effect \<Rightarrow> dom \<Rightarrow> dom" where
  "apply_effect (ClassListAdd i c) d =
     update_element i (\<lambda>e. e\<lparr>classList :=
        (if c \<in> set (classList e) then classList e else classList e @ [c])\<rparr>) d"
| "apply_effect (ClassListRemove i c) d =
     update_element i (\<lambda>e. e\<lparr>classList := removeAll c (classList e)\<rparr>) d"
| "apply_effect (SetInnerHTML i h) d = update_element i (\<lambda>e. e\<lparr>innerHTML := h\<rparr>) d"
| "apply_effect x d = d"

definition run :: "effect list \<Rightarrow> dom \<Rightarrow> dom" where
  "run xs d = fold apply_effect xs d"

definition is_active :: "dom \<Rightarrow> string \<Rightarrow> bool" where
  "is_active d i = (case d i of Some e \<Rightarrow> ''active'' \<in> set (classList e) | None \<Rightarrow> False)"

section \<open>The request envelope: \<^verbatim>\<open>makeApiRequest\<close>\<close>

text \<open>\<^verbatim>\<open>if (element) ...\<close>\<close>

fun if_present :: "string option \<Rightarrow> (string \<Rightarrow> effect) \<Rightarrow> effect list" where
  "if_present None f = []"
| "if_present (Some i) f = [f i]"

definition nl :: string where
  "nl = [CHR 0x0A]"

definition cross_mark :: string where
  "cross_mark = [CHR 0xE2, CHR 0x9D, CHR 0x8C]"

definition showError :: "string \<Rightarrow> string \<Rightarrow> effect" where
  \<open>showError container msg = SetInnerHTML container
     (nl @ ''        <div class="horoscope-result" style="border-color: #ff4444;">'' @ nl
       @ ''            <div class="horoscope-text" style="color: #ff4444;">'' @ nl
       @ ''                <strong>'' @ cross_mark @ '' Erreur:</strong> '' @ msg @ nl
       @ ''            </div>'' @ nl
       @ ''        </div>'' @ nl
       @ ''    '')\<close>

text \<open>
  Lines 68 to 71: the decision between the payload and a thrown \<^verbatim>\<open>Error\<close>. The condition
  \<^verbatim>\<open>!apiResponse.ok || !data.success\<close> reads \<^verbatim>\<open>data.success\<close> only when the status is ok.
  \<^verbatim>\<open>new Error(m)\<close> turns \<open>m\<close> into a string, which may throw in its turn.
\<close>

definition failure :: "jsval response \<Rightarrow> jsval \<Rightarrow> exn + jsval" where
  "failure apiResponse data =
     (case get_prop data ''error'' of
        Inl e \<Rightarrow> Inl e
      | Inr err \<Rightarrow>
          if truthy err
          then case to_string err of Inl e \<Rightarrow> Inl e | Inr msg \<Rightarrow> Inl (Error msg)
          else Inl (Error (''Erreur HTTP '' @ decimal (status apiResponse))))"

definition check_response :: "jsval response \<Rightarrow> jsval \<Rightarrow> exn + jsval" where
  "check_response apiResponse data =
     (if \<not> ok apiResponse then failure apiResponse data
      else case get_prop data ''success'' of
             Inl e \<Rightarrow> Inl e
           | Inr s \<Rightarrow> if \<not> truthy s then failure apiResponse data else Inr data)"

text \<open>
  The \<^verbatim>\<open>try\<close> block: when it ends, and with the returned payload or the exception thrown.
\<close>

definition try_block :: "jsval response promise \<Rightarrow> unit promise \<Rightarrow> nat \<times> (exn + jsval)" where
  "try_block apiCallPromise minimumLoadingTime =
     (case promise_all apiCallPromise minimumLoadingTime of
        Promise t (Rejected e) \<Rightarrow> (t, Inl e)
      | Promise t (Fulfilled (apiResponse, u)) \<Rightarrow>
          (case json apiResponse of
             Promise tj (Rejected e) \<Rightarrow> (t + tj, Inl e)
           | Promise tj (Fulfilled data) \<Rightarrow> (t + tj, check_response apiResponse data)))"

text \<open>
  A call of \<^verbatim>\<open>makeApiRequest\<close>, started at time 0: what it does before its first
  \<^verbatim>\<open>await\<close>, what it does when it resumes (the \<^verbatim>\<open>catch\<close> and \<^verbatim>\<open>finally\<close> blocks), and
  the promise it returns. Other tasks may run between the two. The statements before the
  \<^verbatim>\<open>try\<close> block (two lookups, the timer, the call of \<^verbatim>\<open>fetch\<close>, which hands its
  failures to the promise it returns, and two writes to elements that were found) do not
  throw, and neither do those of the \<^verbatim>\<open>catch\<close> and \<^verbatim>\<open>finally\<close> blocks.
\<close>

record api_call =
  sync_effects :: "effect list"
  async_effects :: "effect list"
  returned :: "jsval promise"

definition makeApiRequest ::
  "network \<Rightarrow> dom \<Rightarrow> string \<Rightarrow> request \<Rightarrow> string \<Rightarrow> string \<Rightarrow> api_call" where
  "makeApiRequest net d endpoint options loadingId resultId =
     (let loadingElement = getElementById d loadingId;
          resultElement = getElementById d resultId;
          minimumLoadingTime = Promise 500 (Fulfilled ());
          apiCallPromise = net endpoint options;
          (t, outcome) = try_block apiCallPromise minimumLoadingTime
      in \<lparr> sync_effects =
             [SetTimeout 500, Fetch endpoint options]
             @ if_present loadingElement (\<lambda>l. ClassListAdd l ''active'')
             @ if_present resultElement (\<lambda>r. SetInnerHTML r []),
           async_effects =
             (case outcome of
                Inr data \<Rightarrow> []
              | Inl error \<Rightarrow>
                  ConsoleError (''Erreur API pour '' @ endpoint @ '':'') error
                  # if_present resultElement (\<lambda>r. showError r (message error)))
             @ if_present loadingElement (\<lambda>l. ClassListRemove l ''active''),
           returned =
             Promise t (Fulfilled (case outcome of Inr data \<Rightarrow> data | Inl error \<Rightarrow> Null)) \<rparr>)"

text \<open>The time at which a promise settles.\<close>

fun settled_at :: "'a promise \<Rightarrow> nat" where
  "settled_at (Promise t s) = t"

section \<open>Batch outcome rendering\<close>

definition e_acute :: string where
  "e_acute = [CHR 0xC3, CHR 0xA9]"

definition E_acute :: string where
  "E_acute = [CHR 0xC3, CHR 0x89]"

definition check_mark :: string where
  "check_mark = [CHR 0xE2, CHR 0x9C, CHR 0x85]"

definition signNames :: "(string \<times> string) list" where
  "signNames =
     [(''aries'', ''B'' @ e_acute @ ''lier''), (''taurus'', ''Taureau''),
      (''gemini'', ''G'' @ e_acute @ ''meaux''), (''cancer'', ''Cancer''), (''leo'', ''Lion''),
      (''virgo'', ''Vierge''), (''libra'', ''Balance''), (''scorpio'', ''Scorpion''),
      (''sagittarius'', ''Sagittaire''), (''capricorn'', ''Capricorne''),
      (''aquarius'', ''Verseau''), (''pisces'', ''Poissons'')]"

text \<open>
  What the table inherits from \<^verbatim>\<open>Object.prototype\<close>: the name of each property and
  the string its value prints as.
\<close>

definition native :: "string \<Rightarrow> string" where
  "native f = ''function '' @ f @ ''() { [native code] }''"

definition object_prototype :: "(string \<times> string) list" where
  "object_prototype =
     [(''constructor'', native ''Object''),
      (''__defineGetter__'', native ''__defineGetter__''),
      (''__defineSetter__'', native ''__defineSetter__''),
      (''hasOwnProperty'', native ''hasOwnProperty''),
      (''__lookupGetter__'', native ''__lookupGetter__''),
      (''__lookupSetter__'', native ''__lookupSetter__''),
      (''isPrototypeOf'', native ''isPrototypeOf''),
      (''propertyIsEnumerable'', native ''propertyIsEnumerable''),
      (''toString'', native ''toString''),
      (''valueOf'', native ''valueOf''),
      (''__proto__'', ''[object Object]''),
      (''toLocaleString'', native ''toLocaleString'')]"

text \<open>
  \<^verbatim>\<open>${table[key]}\<close> on a table of strings: the key is turned into a string, which may
  throw; the table has the property, or inherits it, or the value is \<^verbatim>\<open>undefined\<close>.
\<close>

definition table_text :: "(string \<times> string) list \<Rightarrow> jsval \<Rightarrow> exn + string" where
  "table_text table key =
     and_then (to_string key) (\<lambda>k.
     Inr (case map_of table k of
            Some v \<Rightarrow> v
          | None \<Rightarrow> (case map_of object_prototype k of
                       Some inherited \<Rightarrow> inherited
                     | None \<Rightarrow> ''undefined'')))"

text \<open>
  The receiver of an array method (\<^verbatim>\<open>map\<close>, \<^verbatim>\<open>forEach\<close>): the elements of an array, a
  \<^verbatim>\<open>TypeError\<close> on anything else.
\<close>

definition as_array :: "string \<Rightarrow> string \<Rightarrow> jsval \<Rightarrow> exn + jsval list" where
  "as_array receiver method v =
     (case v of
        Arr xs \<Rightarrow> Inr xs
      | Undefined \<Rightarrow> Inl (cannot ''read'' ''undefined'' ''reading'' method)
      | Null \<Rightarrow> Inl (cannot ''read'' ''null'' ''reading'' method)
      | _ \<Rightarrow> Inl (TypeError (receiver @ ''.'' @ method @ '' is not a function'')))"

text \<open>\<^verbatim>\<open>xs.map(f)\<close>, where the callback may throw: the first exception ends the iteration.\<close>

fun array_map :: "('a \<Rightarrow> exn + 'b) \<Rightarrow> 'a list \<Rightarrow> exn + 'b list" where
  "array_map f [] = Inr []"
| "array_map f (x # xs) =
     and_then (f x) (\<lambda>y. and_then (array_map f xs) (\<lambda>ys. Inr (y # ys)))"

text \<open>\<^verbatim>\<open>xs.forEach(x => { acc += f(x) })\<close>\<close>

fun forEach_append :: "('a \<Rightarrow> exn + string) \<Rightarrow> 'a list \<Rightarrow> string \<Rightarrow> exn + string" where
  "forEach_append f [] acc = Inr acc"
| "forEach_append f (x # xs) acc = and_then (f x) (\<lambda>s. forEach_append f xs (acc @ s))"

text \<open>
  The callback of \<^verbatim>\<open>createComfyUIBatchResultHTML\<close>, lines 947 to 951: the entry of one
  item. \<^verbatim>\<open>formatFileSize\<close> computes in floating point and is taken as a parameter; it
  compares its argument with a number and so may throw as well.
\<close>

definition batch_result_item :: "(jsval \<Rightarrow> exn + string) \<Rightarrow> jsval \<Rightarrow> exn + string" where
  \<open>batch_result_item formatFileSize res =
     and_then (get_prop res ''success'') (\<lambda>s.
     and_then (get_prop res ''sign'') (\<lambda>sign.
     and_then (table_text signNames sign) (\<lambda>name.
     and_then
       (if truthy s
        then and_then (get_prop res ''result'') (\<lambda>result.
             and_then (get_prop result ''file_size'') (\<lambda>file_size.
             and_then (formatFileSize file_size) (\<lambda>printed.
             Inr (''R'' @ e_acute @ ''ussi ('' @ printed @ '')''))))
        else and_then (get_prop res ''error'') (\<lambda>err.
             and_then (to_string err) (\<lambda>msg.
             Inr (E_acute @ ''chou'' @ e_acute @ '' - '' @ msg))))
       (\<lambda>detail.
     Inr (''<li class="'' @ (if truthy s then ''success'' else ''error'') @ ''">'' @ nl
          @ ''            <strong>'' @ name @ '':</strong> '' @ nl
          @ ''            '' @ detail @ nl
          @ ''        </li>'')))))\<close>

definition createComfyUIBatchResultHTML ::
  "(jsval \<Rightarrow> exn + string) \<Rightarrow> jsval \<Rightarrow> exn + string" where
  \<open>createComfyUIBatchResultHTML formatFileSize data =
     and_then (get_prop data ''results'') (\<lambda>results.
     and_then (as_array ''data.results'' ''map'' results) (\<lambda>items.
     and_then (array_map (batch_result_item formatFileSize) items) (\<lambda>entries.
     let resultsList = concat entries
     in and_then (get_prop data ''message'') (\<lambda>message.
        and_then (to_string message) (\<lambda>msg.
        Inr (nl @ ''        <div class="horoscope-result">'' @ nl
             @ ''            <h3 style="color: #00ff41;">Batch ComfyUI Termin'' @ e_acute
             @ '' !</h3>'' @ nl
             @ ''            <p>'' @ msg @ ''</p>'' @ nl
             @ ''            <ul class="batch-results-list">'' @ resultsList @ ''</ul>'' @ nl
             @ ''        </div>''))))))\<close>

text \<open>The callback of the loop of \<^verbatim>\<open>uploadBatchToYouTube\<close>, line 888.\<close>

definition upload_result_item :: "jsval \<Rightarrow> exn + string" where
  "upload_result_item res =
     and_then (get_prop res ''success'') (\<lambda>s.
     and_then (get_prop res ''sign'') (\<lambda>sign.
     and_then (table_text signNames sign) (\<lambda>name.
     and_then (if truthy s then Inr ''OK''
               else and_then (get_prop res ''error'') to_string)
       (\<lambda>detail.
     Inr (''<p>'' @ (if truthy s then check_mark else cross_mark) @ '' ''
          @ name @ '': '' @ detail @ ''</p>'')))))"

text \<open>Lines 886 to 890: the detailed results of a batch upload.\<close>

definition upload_results_html :: "jsval \<Rightarrow> exn + string" where
  \<open>upload_results_html response =
     and_then (get_prop response ''details'') (\<lambda>details.
     and_then (as_array ''response.details'' ''forEach'' details) (\<lambda>items.
     and_then
       (forEach_append upload_result_item items
          (''<div class="horoscope-result"><h3>R'' @ e_acute @ ''sultats de l''
            @ [CHR 0x27] @ ''Upload Batch</h3>''))
       (\<lambda>resultsHtml. Inr (resultsHtml @ ''</div>''))))\<close>

section \<open>Batch workflows\<close>

text \<open>
  A run of an \<^verbatim>\<open>async\<close> handler: what it did, and whether it returned or an exception
  escaped it.
\<close>

record workflow_run =
  effects :: "effect list"
  completion :: "unit settled"

definition finish :: "effect list \<Rightarrow> workflow_run" where
  "finish es = \<lparr>effects = es, completion = Fulfilled ()\<rparr>"

definition abort :: "effect list \<Rightarrow> exn \<Rightarrow> workflow_run" where
  "abort es e = \<lparr>effects = es, completion = Rejected e\<rparr>"

text \<open>\<^verbatim>\<open>document.getElementById(i).value\<close>\<close>

definition element_value :: "dom \<Rightarrow> string \<Rightarrow> exn + string" where
  "element_value d i =
     (case d i of
        None \<Rightarrow> Inl (cannot ''read'' ''null'' ''reading'' ''value'')
      | Some e \<Rightarrow> Inr (elem_value e))"

text \<open>\<^verbatim>\<open>resultDiv.innerHTML = h\<close>\<close>

definition set_innerHTML :: "string option \<Rightarrow> string \<Rightarrow> exn + effect" where
  "set_innerHTML resultDiv h =
     (case resultDiv of
        None \<Rightarrow> Inl (cannot ''set'' ''null'' ''setting'' ''innerHTML'')
      | Some i \<Rightarrow> Inr (SetInnerHTML i h))"

definition json_headers :: "(string \<times> string) list" where
  "json_headers = [(''Content-Type'', ''application/json'')]"

text \<open>
  The three batch handlers. \<open>confirmed\<close> is the answer of the user to the prompt. The
  body of a request is the value handed to \<^verbatim>\<open>JSON.stringify\<close>.
\<close>

definition generateComfyUIBatchVideos ::
  "(jsval \<Rightarrow> exn + string) \<Rightarrow> bool \<Rightarrow> network \<Rightarrow> dom \<Rightarrow> workflow_run" where
  "generateComfyUIBatchVideos formatFileSize confirmed net d =
     (let asked = [Confirm (''Lancer la g'' @ e_acute @ ''n'' @ e_acute
                     @ ''ration en lot pour les 12 signes ?'' @ nl
                     @ ''Le processus peut prendre plus de 20 minutes.'')]
      in if \<not> confirmed then finish asked
         else case element_value d ''video-format'' of
           Inl e \<Rightarrow> abort asked e
         | Inr format \<Rightarrow>
             let resultDiv = getElementById d ''video-result'';
                 call = makeApiRequest net d ''/api/comfyui/generate_batch''
                          \<lparr>req_method = ''POST'', req_headers = json_headers,
                            req_body = Some (Obj [(''format'', Str format)])\<rparr>
                          ''video-loading'' ''video-result'';
                 done = asked @ sync_effects call @ async_effects call
             in case returned call of
                  Promise t (Rejected e) \<Rightarrow> abort done e
                | Promise t (Fulfilled response) \<Rightarrow>
                    if truthy response
                    then case and_then (createComfyUIBatchResultHTML formatFileSize response)
                                (set_innerHTML resultDiv) of
                           Inl e \<Rightarrow> abort done e
                         | Inr shown \<Rightarrow> finish (done @ [shown])
                    else finish done)"

definition generateFullMontage :: "bool \<Rightarrow> network \<Rightarrow> dom \<Rightarrow> workflow_run" where
  \<open>generateFullMontage confirmed net d =
     (let asked = [Confirm (''Lancer le workflow complet pour les 12 signes ?'' @ nl
                     @ ''Le processus peut prendre plus de 30 minutes.'')]
      in if \<not> confirmed then finish asked
         else
           let resultDiv = getElementById d ''video-result''
           in case element_value d ''video-format'' of
                Inl e \<Rightarrow> abort asked e
              | Inr v \<Rightarrow>
                  let format = (if v \<noteq> [] then v else ''youtube_short'');
                      call = makeApiRequest net d ''/api/workflow/batch_complete_generation''
                               \<lparr>req_method = ''POST'', req_headers = json_headers,
                                 req_body = Some (Obj [(''format'', Str format),
                                                       (''add_music'', Bool True)])\<rparr>
                               ''video-loading'' ''video-result'';
                      done = asked @ sync_effects call @ async_effects call
                  in case returned call of
                       Promise t (Rejected e) \<Rightarrow> abort done e
                     | Promise t (Fulfilled response) \<Rightarrow>
                         if truthy response
                         then case and_then (get_prop response ''summary'') (\<lambda>summary.
                                   and_then (get_prop summary ''message'') (\<lambda>message.
                                   and_then (to_string message) (\<lambda>msg.
                                   set_innerHTML resultDiv
                                     (''<div class="horoscope-result"><h3 style="color: #00ff41;">''
                                       @ check_mark @ '' Workflow de Lot Termin'' @ e_acute
                                       @ '' !</h3><p>'' @ msg @ ''</p></div>'')))) of
                                Inl e \<Rightarrow> abort done e
                              | Inr shown \<Rightarrow> finish (done @ [shown])
                         else finish done)\<close>

definition uploadBatchToYouTube :: "bool \<Rightarrow> network \<Rightarrow> dom \<Rightarrow> workflow_run" where
  "uploadBatchToYouTube confirmed net d =
     (let asked = [Confirm (''Uploader TOUTES les vid'' @ e_acute
                     @ ''os disponibles sur YouTube en mode PRIV'' @ E_acute @ '' ?'')]
      in if \<not> confirmed then finish asked
         else
           let resultDiv = getElementById d ''video-result'';
               call = makeApiRequest net d ''/api/youtube/upload_batch''
                        \<lparr>req_method = ''POST'', req_headers = json_headers,
                          req_body = Some (Obj [(''privacy'', Str ''private'')])\<rparr>
                        ''video-loading'' ''video-result'';
               done = asked @ sync_effects call @ async_effects call
           in case returned call of
                Promise t (Rejected e) \<Rightarrow> abort done e
              | Promise t (Fulfilled response) \<Rightarrow>
                  if truthy response
                  then case and_then (get_prop response ''summary'') to_string of
                         Inl e \<Rightarrow> abort done e
                       | Inr summary \<Rightarrow>
                           let alerted = done @ [Alert (''Batch Upload termin'' @ e_acute @ '': ''
                                                   @ summary)]
                           in case and_then (upload_results_html response)
                                     (set_innerHTML resultDiv) of
                                Inl e \<Rightarrow> abort alerted e
                              | Inr shown \<Rightarrow> finish (alerted @ [shown])
                  else finish done)"

section \<open>Configuration state: the model list\<close>

record appState =
  currentSection :: string
  chatMessages :: "jsval list"
  selectedModel :: string
  availableModels :: "string list"
  currentVideoProject :: jsval
  batchResults :: jsval

definition initial_appState :: appState where
  "initial_appState =
     \<lparr>currentSection = ''individual'', chatMessages = [],
      selectedModel = ''llama3.1:8b-instruct-q8_0'', availableModels = [],
      currentVideoProject = Null, batchResults = Null\<rparr>"

text \<open>
  The payload of \<^verbatim>\<open>/api/ollama/models\<close> in the shape \<^verbatim>\<open>loadAvailableModels\<close> reads it:
  the success flag, the array of models when there is one, each model given by its
  \<^verbatim>\<open>name\<close>, and the error message when there is one. Accordingly the available models of
  the application state are kept by their names.
\<close>

record models_payload =
  success :: bool
  models :: "string list option"
  error :: "string option"

text \<open>The application state, the persistent storage of the browser, and the page.\<close>

record world =
  app :: appState
  localStorage :: "string \<rightharpoonup> string"
  page :: dom

text \<open>
  A statement takes the world to a new world and ends normally or with an exception, the
  world then being as the statement left it.
\<close>

type_synonym stmt = "world \<Rightarrow> exn option \<times> world"

definition seq :: "stmt \<Rightarrow> stmt \<Rightarrow> stmt" where
  "seq s1 s2 w = (case s1 w of (Some e, w1) \<Rightarrow> (Some e, w1) | (None, w1) \<Rightarrow> s2 w1)"

definition throw :: "exn \<Rightarrow> stmt" where
  "throw e w = (Some e, w)"

definition try_catch :: "stmt \<Rightarrow> (exn \<Rightarrow> stmt) \<Rightarrow> stmt" where
  "try_catch body handler w =
     (case body w of (Some e, w1) \<Rightarrow> handler e w1 | (None, w1) \<Rightarrow> (None, w1))"

definition assign :: "(world \<Rightarrow> world) \<Rightarrow> stmt" where
  "assign f w = (None, f w)"

text \<open>Writing to an element that \<^verbatim>\<open>getElementById\<close> did not find throws.\<close>

definition dom_write :: "string option \<Rightarrow> exn \<Rightarrow> (element \<Rightarrow> element) \<Rightarrow> stmt" where
  "dom_write target on_null f w =
     (case target of
        None \<Rightarrow> (Some on_null, w)
      | Some i \<Rightarrow> (None, w\<lparr>page := update_element i f (page w)\<rparr>))"

text \<open>
  The \<^verbatim>\<open>select\<close> element: emptied by \<^verbatim>\<open>innerHTML = ''\<close>; the first option appended to
  it becomes its value; assigning its value selects the option of that value, or none.
\<close>

definition clear_select :: "element \<Rightarrow> element" where
  "clear_select e = e\<lparr>innerHTML := [], elem_value := [], select_options := []\<rparr>"

definition append_option :: "string \<Rightarrow> element \<Rightarrow> element" where
  "append_option v e =
     e\<lparr>elem_value := (if select_options e = [] then v else elem_value e),
       select_options := select_options e @ [v]\<rparr>"

definition select_value :: "string \<Rightarrow> element \<Rightarrow> element" where
  "select_value v e = e\<lparr>elem_value := (if v \<in> set (select_options e) then v else [])\<rparr>"

text \<open>Lines 243 to 248: one option for each model.\<close>

fun append_options :: "string option \<Rightarrow> string list \<Rightarrow> stmt" where
  "append_options modelSelect [] = assign (\<lambda>w. w)"
| "append_options modelSelect (m # ms) =
     seq (dom_write modelSelect (cannot ''read'' ''null'' ''reading'' ''appendChild'')
            (append_option m))
         (append_options modelSelect ms)"

definition e_grave :: string where
  "e_grave = [CHR 0xC3, CHR 0xA8]"

text \<open>\<^verbatim>\<open>localStorage.getItem('selectedModel') || appState.selectedModel\<close>\<close>

definition savedModel :: "world \<Rightarrow> string" where
  "savedModel w =
     (case localStorage w ''selectedModel'' of
        Some s \<Rightarrow> if s \<noteq> [] then s else selectedModel (app w)
      | None \<Rightarrow> selectedModel (app w))"

text \<open>Lines 250 to 257: the selected model is validated against the new list.\<close>

definition validate_selection :: "string option \<Rightarrow> string list \<Rightarrow> stmt" where
  "validate_selection modelSelect ms w =
     (let saved = savedModel w
      in if list_ex (\<lambda>m. m = saved) ms
         then seq (dom_write modelSelect (cannot ''set'' ''null'' ''setting'' ''value'')
                     (select_value saved))
                  (assign (\<lambda>w. w\<lparr>app := (app w)\<lparr>selectedModel := saved\<rparr>\<rparr>)) w
         else seq (assign (\<lambda>w. w\<lparr>app := (app w)\<lparr>selectedModel := ms ! 0\<rparr>\<rparr>))
                  (\<lambda>w. dom_write modelSelect (cannot ''set'' ''null'' ''setting'' ''value'')
                          (select_value (selectedModel (app w))) w) w)"

text \<open>Lines 240 to 263: the payload is accepted, or an \<^verbatim>\<open>Error\<close> is thrown.\<close>

definition no_models :: "models_payload \<Rightarrow> exn" where
  "no_models data =
     Error (case error data of
              Some s \<Rightarrow> if s \<noteq> [] then s else ''Aucun mod'' @ e_grave @ ''le trouv'' @ e_acute
            | None \<Rightarrow> ''Aucun mod'' @ e_grave @ ''le trouv'' @ e_acute)"

definition accept_models ::
  "string option \<Rightarrow> string option \<Rightarrow> string option \<Rightarrow> models_payload \<Rightarrow> stmt" where
  "accept_models statusDot statusText modelSelect data =
     (case models data of
        None \<Rightarrow> throw (no_models data)
      | Some ms \<Rightarrow>
          if success data \<and> 0 < length ms
          then seq (assign (\<lambda>w. w\<lparr>app := (app w)\<lparr>availableModels := ms\<rparr>\<rparr>))
              (seq (dom_write modelSelect (cannot ''set'' ''null'' ''setting'' ''innerHTML'')
                      clear_select)
              (seq (append_options modelSelect ms)
              (seq (validate_selection modelSelect ms)
              (seq (dom_write statusDot (cannot ''set'' ''null'' ''setting'' ''className'')
                      (\<lambda>e. e\<lparr>classList := [''status-dot'', ''connected'']\<rparr>))
                   (dom_write statusText (cannot ''set'' ''null'' ''setting'' ''textContent'')
                      (\<lambda>e. e\<lparr>textContent := decimal (length ms) @ '' mod'' @ e_grave
                                                 @ ''les''\<rparr>))))))
          else throw (no_models data))"

text \<open>
  \<^verbatim>\<open>loadAvailableModels\<close>, given what \<^verbatim>\<open>fetch('/api/ollama/models')\<close> returns. The
  result is the exception that escapes, if one does. A \<^verbatim>\<open>className\<close> is given by the list
  of its classes; \<^verbatim>\<open>console.error\<close> leaves the world as it is.
\<close>

definition loadAvailableModels :: "models_payload response promise \<Rightarrow> stmt" where
  "loadAvailableModels fetched w =
     (let statusDot = getElementById (page w) ''model-status-dot'';
          statusText = getElementById (page w) ''model-status-text'';
          modelSelect = getElementById (page w) ''global-model-select''
      in try_catch
           (case fetched of
              Promise t (Rejected e) \<Rightarrow> throw e
            | Promise t (Fulfilled response) \<Rightarrow>
                (case json response of
                   Promise u (Rejected e) \<Rightarrow> throw e
                 | Promise u (Fulfilled data) \<Rightarrow>
                     accept_models statusDot statusText modelSelect data))
           (\<lambda>e. seq (dom_write statusDot (cannot ''set'' ''null'' ''setting'' ''className'')
                        (\<lambda>e. e\<lparr>classList := [''status-dot'', ''error'']\<rparr>))
                     (dom_write statusText (cannot ''set'' ''null'' ''setting'' ''textContent'')
                        (\<lambda>e. e\<lparr>textContent := ''Ollama offline''\<rparr>)))
           w)"

text \<open>
  \<^verbatim>\<open>changeModel\<close>, the handler of the selector: the model selected on the page becomes
  the selected model and is stored. The status shows a confirmation, which the callback of
  the timer takes back after 1500 ms.
\<close>

definition changeModel :: stmt where
  "changeModel w =
     (case element_value (page w) ''global-model-select'' of
        Inl e \<Rightarrow> (Some e, w)
      | Inr v \<Rightarrow>
          (let statusDot = getElementById (page w) ''model-status-dot'';
               statusText = getElementById (page w) ''model-status-text''
           in seq (assign (\<lambda>w. w\<lparr>app := (app w)\<lparr>selectedModel := v\<rparr>\<rparr>))
             (seq (assign (\<lambda>w. w\<lparr>localStorage :=
                              (localStorage w)(''selectedModel'' \<mapsto> selectedModel (app w))\<rparr>))
             (seq (dom_write statusDot (cannot ''set'' ''null'' ''setting'' ''className'')
                     (\<lambda>e. e\<lparr>classList := [''status-dot'', ''connected'', ''confirming'']\<rparr>))
                  (\<lambda>w. dom_write statusText (cannot ''set'' ''null'' ''setting'' ''textContent'')
                     (\<lambda>e. e\<lparr>textContent := ''Activ'' @ e_acute @ '' : ''
                              @ takeWhile (\<lambda>c. c \<noteq> CHR '':'') (selectedModel (app w))\<rparr>) w)))
             w))"

definition changeModel_timeout :: "string option \<Rightarrow> string option \<Rightarrow> stmt" where
  "changeModel_timeout statusDot statusText =
     seq (dom_write statusDot (cannot ''read'' ''null'' ''reading'' ''classList'')
            (\<lambda>e. e\<lparr>classList := removeAll ''confirming'' (classList e)\<rparr>))
         (\<lambda>w. dom_write statusText (cannot ''set'' ''null'' ''setting'' ''textContent'')
            (\<lambda>e. e\<lparr>textContent := decimal (length (availableModels (app w))) @ '' mod''
                     @ e_grave @ ''les''\<rparr>) w)"

section \<open>Notions the properties are stated with\<close>

text \<open>
  In a list of effects, \<open>x\<close> comes strictly before \<open>y\<close>: of the two, \<open>x\<close> is the first to
  occur, and \<open>y\<close> occurs after it.
\<close>

fun precedes :: "'a \<Rightarrow> 'a \<Rightarrow> 'a list \<Rightarrow> bool" where
  "precedes x y [] = False"
| "precedes x y (z # zs) =
     (if z = x then y \<in> set zs else if z = y then False else precedes x y zs)"

text \<open>What an element of the page shows.\<close>

definition content :: "dom \<Rightarrow> string \<Rightarrow> string option" where
  "content d i = (case d i of Some e \<Rightarrow> Some (innerHTML e) | None \<Rightarrow> None)"

text \<open>
  The decision of the envelope as the code takes it: the status is ok and the
  \<^verbatim>\<open>success\<close> field of the payload is truthy.
\<close>

definition confirmed_success :: "jsval response \<Rightarrow> jsval \<Rightarrow> bool" where
  "confirmed_success r data =
     (ok r \<and> (case get_prop data ''success'' of Inr s \<Rightarrow> truthy s | Inl e \<Rightarrow> False))"

text \<open>The stricter rule: the status is ok and the \<^verbatim>\<open>success\<close> field is \<^verbatim>\<open>true\<close> itself.\<close>

definition strict_success :: "jsval response \<Rightarrow> jsval \<Rightarrow> bool" where
  "strict_success r data = (ok r \<and> get_prop data ''success'' = Inr (Bool True))"

text \<open>The payload of a request that was answered, parsed and confirmed successful.\<close>

definition confirmed_payload :: "jsval response promise \<Rightarrow> jsval option" where
  "confirmed_payload p =
     (case p of
        Promise t (Rejected e) \<Rightarrow> None
      | Promise t (Fulfilled r) \<Rightarrow>
          (case json r of
             Promise u (Rejected e) \<Rightarrow> None
           | Promise u (Fulfilled data) \<Rightarrow> if confirmed_success r data then Some data else None))"

text \<open>
  A refresh of the model list fails: the request is rejected, the body does not parse, the
  payload is not successful, or it lists no model.
\<close>

definition refresh_fails :: "models_payload response promise \<Rightarrow> bool" where
  "refresh_fails fetched =
     (case fetched of
        Promise t (Rejected e) \<Rightarrow> True
      | Promise t (Fulfilled r) \<Rightarrow>
          (case json r of
             Promise u (Rejected e) \<Rightarrow> True
           | Promise u (Fulfilled data) \<Rightarrow>
               \<not> success data \<or> models data = None \<or> models data = Some []))"

text \<open>A handler dispatches a request: one of its effects is a call of \<^verbatim>\<open>fetch\<close>.\<close>

fun is_fetch :: "effect \<Rightarrow> bool" where
  "is_fetch (Fetch endpoint options) = True"
| "is_fetch x = False"

definition dispatches :: "effect list \<Rightarrow> bool" where
  "dispatches xs = list_ex is_fetch xs"

text \<open>The property \<open>p\<close> of a value that has properties.\<close>

definition property :: "jsval \<Rightarrow> string \<Rightarrow> jsval" where
  "property v p = (case get_prop v p of Inr x \<Rightarrow> x | Inl e \<Rightarrow> Undefined)"

definition has_props :: "jsval \<Rightarrow> bool" where
  "has_props v = (v \<noteq> Undefined \<and> v \<noteq> Null)"

text \<open>
  What an item of a batch report says: the name of its sign, its error message, the size of
  its file as \<^verbatim>\<open>formatFileSize\<close> prints it.
\<close>

definition sign_name :: "jsval \<Rightarrow> string" where
  "sign_name res =
     (case property res ''sign'' of
        Str k \<Rightarrow> (case map_of signNames k of Some n \<Rightarrow> n | None \<Rightarrow> [])
      | _ \<Rightarrow> [])"

definition error_message :: "jsval \<Rightarrow> string" where
  "error_message res = (case property res ''error'' of Str m \<Rightarrow> m | _ \<Rightarrow> [])"

definition file_size :: "jsval \<Rightarrow> jsval" where
  "file_size res = property (property res ''result'') ''file_size''"

definition formatted :: "(jsval \<Rightarrow> exn + string) \<Rightarrow> jsval \<Rightarrow> string" where
  "formatted formatFileSize v = (case formatFileSize v of Inr printed \<Rightarrow> printed | Inl e \<Rightarrow> [])"

text \<open>
  An item of a batch report: an object whose sign is one of the twelve signs and which,
  when it is a failure, has a string as its error.
\<close>

definition report_item :: "jsval \<Rightarrow> bool" where
  "report_item res =
     (has_props res
      \<and> (case property res ''sign'' of Str k \<Rightarrow> map_of signNames k \<noteq> None | _ \<Rightarrow> False)
      \<and> (truthy (property res ''success'')
         \<or> (case property res ''error'' of Str m \<Rightarrow> True | _ \<Rightarrow> False)))"

text \<open>
  An item of a report on generated clips: when it is a success it also carries a result,
  whose file size can be printed.
\<close>

definition batch_item :: "(jsval \<Rightarrow> exn + string) \<Rightarrow> jsval \<Rightarrow> bool" where
  "batch_item formatFileSize res =
     (report_item res
      \<and> (\<not> truthy (property res ''success'')
         \<or> has_props (property res ''result'')
           \<and> (case formatFileSize (file_size res) of Inr printed \<Rightarrow> True | Inl e \<Rightarrow> False)))"

text \<open>Refreshes one after the other, each given by what its request returns.\<close>

fun refresh_all :: "models_payload response promise list \<Rightarrow> world \<Rightarrow> world" where
  "refresh_all [] w = w"
| "refresh_all (fetched # rest) w = refresh_all rest (snd (loadAvailableModels fetched w))"

section \<open>Example inputs\<close>

definition blank :: element where
  "blank = \<lparr>classList = [], innerHTML = [], textContent = [], elem_value = [],
            select_options = []\<rparr>"

definition example_page :: dom where
  "example_page =
     [''video-loading'' \<mapsto> blank,
      ''video-result'' \<mapsto> blank\<lparr>innerHTML := ''<p>stale</p>''\<rparr>,
      ''video-format'' \<mapsto> blank\<lparr>elem_value := ''youtube_short''\<rparr>,
      ''model-status-dot'' \<mapsto> blank,
      ''model-status-text'' \<mapsto> blank,
      ''global-model-select'' \<mapsto> blank]"

definition example_request :: request where
  "example_request =
     \<lparr>req_method = ''POST'', req_headers = json_headers,
      req_body = Some (Obj [(''privacy'', Str ''private'')])\<rparr>"

text \<open>A network that cannot reach the backend: every request fails after 10 ms.\<close>

definition unreachable :: network where
  "unreachable endpoint options = Promise 10 (Rejected (TypeError ''Failed to fetch''))"

text \<open>
  A backend that answers every request after \<open>t\<close> ms with the given status and a body
  that parses, at once, to the given payload.
\<close>

definition replies :: "nat \<Rightarrow> bool \<Rightarrow> nat \<Rightarrow> jsval \<Rightarrow> network" where
  "replies t k st data endpoint options =
     Promise t (Fulfilled \<lparr>ok = k, status = st, json = Promise 0 (Fulfilled data)\<rparr>)"

text \<open>The world when the page has just been loaded, with nothing stored.\<close>

definition fresh_world :: world where
  "fresh_world = \<lparr>app = initial_appState, localStorage = Map.empty, page = example_page\<rparr>"

text \<open>The model list endpoint answering with the given payload.\<close>

definition models_reply :: "models_payload \<Rightarrow> models_payload response promise" where
  "models_reply data =
     Promise 80 (Fulfilled \<lparr>ok = True, status = 200, json = Promise 0 (Fulfilled data)\<rparr>)"

text \<open>
  A report on three generated clips of which the second failed, and a report on three
  uploads of which the second failed.
\<close>

definition example_items :: "jsval list" where
  "example_items =
     [Obj [(''sign'', Str ''aries''), (''success'', Bool True),
           (''result'', Obj [(''file_size'', Num True ''2048'')])],
      Obj [(''sign'', Str ''taurus''), (''success'', Bool False),
           (''error'', Str ''timeout'')],
      Obj [(''sign'', Str ''gemini''), (''success'', Bool True),
           (''result'', Obj [(''file_size'', Num True ''512'')])]]"

definition example_uploads :: "jsval list" where
  "example_uploads =
     [Obj [(''sign'', Str ''aries''), (''success'', Bool True)],
      Obj [(''sign'', Str ''taurus''), (''success'', Bool False),
           (''error'', Str ''quota'')],
      Obj [(''sign'', Str ''gemini''), (''success'', Bool True)]]"

text \<open>The user picks a model in the selector.\<close>

definition pick :: "string \<Rightarrow> world \<Rightarrow> world" where
  "pick v w = w\<lparr>page := update_element ''global-model-select'' (select_value v) (page w)\<rparr>"

text \<open>The page is loaded again: the storage is what remains of the world.\<close>

definition reload :: "world \<Rightarrow> world" where
  "reload w = \<lparr>app = initial_appState, localStorage = localStorage w, page = example_page\<rparr>"

definition lists :: "string list \<Rightarrow> models_payload response promise" where
  "lists ms = models_reply \<lparr>success = True, models = Some ms, error = None\<rparr>"

text \<open>
  A session: the models \<open>a\<close> and \<open>b\<close> are listed, the user picks \<open>b\<close>, the page is
  loaded again and the same models are listed, then \<open>a\<close> alone is listed.
\<close>

definition scenario_1 :: world where
  "scenario_1 = snd (loadAvailableModels (lists [''a'', ''b'']) fresh_world)"

definition scenario_2 :: world where
  "scenario_2 = snd (changeModel (pick ''b'' scenario_1))"

definition scenario_3 :: world where
  "scenario_3 = snd (loadAvailableModels (lists [''a'', ''b'']) (reload scenario_2))"

definition scenario_4 :: world where
  "scenario_4 = snd (loadAvailableModels (lists [''a'']) scenario_3)"

text \<open>A stand-in for \<^verbatim>\<open>formatFileSize\<close> that prints the number of bytes.\<close>

definition in_bytes :: "jsval \<Rightarrow> exn + string" where
  "in_bytes v = and_then (to_string v) (\<lambda>printed. Inr (printed @ '' B''))"

text \<open>The world of a page that was loaded with the model \<open>b\<close> stored.\<close>

definition returning_world :: world where
  "returning_world =
     \<lparr>app = initial_appState, localStorage = [''selectedModel'' \<mapsto> ''b''],
      page = example_page\<rparr>"

section \<open>The minimum loading time\<close>

text \<open>
  When \<^verbatim>\<open>fetch\<close> fulfils, the call settles once the response and the timer are both
  there, plus the time \<^verbatim>\<open>json()\<close> takes to read the body: the floor adds nothing to a
  response slower than 500 ms.
\<close>

lemma makeApiRequest_settles_fulfilled:
  assumes "net endpoint options = Promise tf (Fulfilled r)" and "json r = Promise tj s"
  shows "settled_at (returned (makeApiRequest net d endpoint options lid rid)) = max tf 500 + tj"
  using assms by (cases s) (simp_all add: makeApiRequest_def try_block_def Let_def)

text \<open>
  When \<^verbatim>\<open>fetch\<close> rejects, \<^verbatim>\<open>Promise.all\<close> rejects with it and the call settles at
  that moment, whatever the timer.
\<close>

lemma makeApiRequest_settles_rejected:
  assumes "net endpoint options = Promise tf (Rejected e)"
  shows "settled_at (returned (makeApiRequest net d endpoint options lid rid)) = tf"
  using assms by (simp add: makeApiRequest_def try_block_def Let_def)

text \<open>
  C1. Every call of \<^verbatim>\<open>makeApiRequest\<close> is to settle only once both the network and the
  500 ms timer started at the call are done. On a network that fails after 10 ms the call
  has started its 500 ms timer and yet resolves, to \<^verbatim>\<open>null\<close>, at 10 ms, having
  removed the loading indicator: the floor the documentation of the function guarantees is
  not kept when \<^verbatim>\<open>fetch\<close> rejects.
\<close>

theorem makeApiRequest_floor_skipped_on_rejection:
  "SetTimeout 500 \<in> set (sync_effects (makeApiRequest unreachable example_page
       ''/api/youtube/upload_batch'' example_request ''video-loading'' ''video-result''))
   \<and> returned (makeApiRequest unreachable example_page
       ''/api/youtube/upload_batch'' example_request ''video-loading'' ''video-result'')
     = Promise 10 (Fulfilled Null)
   \<and> settled_at (returned (makeApiRequest unreachable example_page
       ''/api/youtube/upload_batch'' example_request ''video-loading'' ''video-result'')) < 500
   \<and> last (async_effects (makeApiRequest unreachable example_page
       ''/api/youtube/upload_batch'' example_request ''video-loading'' ''video-result''))
     = ClassListRemove ''video-loading'' ''active''"
  by (simp add: makeApiRequest_def try_block_def Let_def unreachable_def getElementById_def
        example_page_def)

section \<open>The loading indicator and the result target\<close>

lemma run_Nil [simp]: "run [] d = d"
  by (simp add: run_def)

lemma run_Cons [simp]: "run (x # xs) d = run xs (apply_effect x d)"
  by (simp add: run_def)

lemma run_append [simp]: "run (xs @ ys) d = run ys (run xs d)"
  by (simp add: run_def)

lemma is_active_add:
  "d i = Some e \<Longrightarrow> is_active (run [ClassListAdd i ''active''] d) i"
  by (simp add: is_active_def update_element_def)

lemma is_active_remove: "\<not> is_active (run [ClassListRemove i ''active''] d) i"
  by (simp add: is_active_def update_element_def split: option.splits)

lemma is_active_SetInnerHTML:
  "is_active (run (if_present r (\<lambda>r. SetInnerHTML r h)) d) i = is_active d i"
  by (cases r) (auto simp add: is_active_def update_element_def split: option.splits)

lemma makeApiRequest_sync_effects:
  "sync_effects (makeApiRequest net d endpoint options loadingId resultId) =
     [SetTimeout 500, Fetch endpoint options]
     @ if_present (getElementById d loadingId) (\<lambda>l. ClassListAdd l ''active'')
     @ if_present (getElementById d resultId) (\<lambda>r. SetInnerHTML r [])"
  by (simp add: makeApiRequest_def Let_def split: prod.splits)

lemma makeApiRequest_async_effects:
  "\<exists>handled. async_effects (makeApiRequest net d endpoint options loadingId resultId) =
     handled @ if_present (getElementById d loadingId) (\<lambda>l. ClassListRemove l ''active'')"
  by (simp add: makeApiRequest_def Let_def split: prod.splits)

lemma makeApiRequest_fulfils:
  "\<exists>t v. returned (makeApiRequest net d endpoint options loadingId resultId)
          = Promise t (Fulfilled v)"
  by (simp add: makeApiRequest_def Let_def split: prod.splits)

text \<open>
  C2. When the loading indicator is on the page, a call of \<^verbatim>\<open>makeApiRequest\<close> has made
  it active by the end of its synchronous part, and the last thing the call does before its
  promise is fulfilled is to make it inactive, whatever the page has become in between
  and whatever the network did: the statement holds for every network, hence on the
  success branch, on a status that is not ok, on a falsey success flag and on an exception.
\<close>

theorem loading_indicator_scoped:
  assumes "d loadingId = Some e"
  shows "is_active (run (sync_effects (makeApiRequest net d endpoint options loadingId resultId)) d)
           loadingId
       \<and> last (async_effects (makeApiRequest net d endpoint options loadingId resultId))
           = ClassListRemove loadingId ''active''
       \<and> \<not> is_active (run (async_effects (makeApiRequest net d endpoint options loadingId resultId))
                          d') loadingId
       \<and> (\<exists>t v. returned (makeApiRequest net d endpoint options loadingId resultId)
                  = Promise t (Fulfilled v))"
proof -
  let ?c = "makeApiRequest net d endpoint options loadingId resultId"
  have present: "getElementById d loadingId = Some loadingId"
    using assms by (simp add: getElementById_def)
  have "is_active (run [ClassListAdd loadingId ''active''] d) loadingId"
    using assms by (rule is_active_add)
  moreover have "apply_effect (Fetch endpoint options) (apply_effect (SetTimeout 500) d) = d"
    by simp
  ultimately have "is_active (run (sync_effects ?c) d) loadingId"
    by (simp add: makeApiRequest_sync_effects present is_active_SetInnerHTML
          del: apply_effect.simps)
  moreover obtain handled where
    async: "async_effects ?c = handled @ [ClassListRemove loadingId ''active'']"
    using makeApiRequest_async_effects [of net d endpoint options loadingId resultId]
    by (auto simp add: present)
  have "last (async_effects ?c) = ClassListRemove loadingId ''active''"
    by (simp add: async)
  moreover have "\<not> is_active (run (async_effects ?c) d') loadingId"
    using is_active_remove [of loadingId "run handled d'"]
    by (simp add: async del: apply_effect.simps)
  ultimately show ?thesis
    using makeApiRequest_fulfils [of net d endpoint options loadingId resultId] by blast
qed

theorem loading_indicator_scoped_witness:
  "example_page ''video-loading'' = Some blank
   \<and> is_active (run (sync_effects (makeApiRequest (replies 120 False 500 Null) example_page
       ''/api/youtube/upload_batch'' example_request ''video-loading'' ''video-result''))
       example_page) ''video-loading''
   \<and> \<not> is_active (run (async_effects (makeApiRequest (replies 120 False 500 Null) example_page
       ''/api/youtube/upload_batch'' example_request ''video-loading'' ''video-result''))
       example_page) ''video-loading''"
proof -
  have present: "example_page ''video-loading'' = Some blank"
    by (simp add: example_page_def)
  from loading_indicator_scoped [of example_page "''video-loading''" blank, OF this] present
  show ?thesis by blast
qed

text \<open>
  C3, as stated: within one call the indicator is made active strictly before the request
  is dispatched. It is not: line 58 calls \<^verbatim>\<open>fetch\<close> before line 60 adds the class, so
  the request is on its way while the indicator is still inactive.
\<close>

theorem fetch_dispatched_before_indicator:
  "precedes (Fetch ''/api/youtube/upload_batch'' example_request)
            (ClassListAdd ''video-loading'' ''active'')
     (sync_effects (makeApiRequest unreachable example_page
        ''/api/youtube/upload_batch'' example_request ''video-loading'' ''video-result''))
   \<and> \<not> precedes (ClassListAdd ''video-loading'' ''active'')
                 (Fetch ''/api/youtube/upload_batch'' example_request)
     (sync_effects (makeApiRequest unreachable example_page
        ''/api/youtube/upload_batch'' example_request ''video-loading'' ''video-result''))"
  by (simp add: makeApiRequest_sync_effects getElementById_def example_page_def)

text \<open>
  C3, amended: within one call the request is dispatched first and the indicator is made
  active right after it, in the same synchronous run: the call starts its timer, calls
  \<^verbatim>\<open>fetch\<close> and adds the class before its first \<^verbatim>\<open>await\<close>, so that no other task runs
  between the dispatch and the activation.
\<close>

theorem indicator_follows_dispatch:
  assumes "d loadingId = Some e"
  shows "precedes (Fetch endpoint options) (ClassListAdd loadingId ''active'')
           (sync_effects (makeApiRequest net d endpoint options loadingId resultId))
       \<and> \<not> precedes (ClassListAdd loadingId ''active'') (Fetch endpoint options)
           (sync_effects (makeApiRequest net d endpoint options loadingId resultId))
       \<and> take 3 (sync_effects (makeApiRequest net d endpoint options loadingId resultId))
           = [SetTimeout 500, Fetch endpoint options, ClassListAdd loadingId ''active'']"
  using assms
  by (simp add: makeApiRequest_sync_effects getElementById_def)

theorem indicator_follows_dispatch_witness:
  "example_page ''video-loading'' = Some blank
   \<and> take 3 (sync_effects (makeApiRequest (replies 120 True 200 (Obj [(''success'', Bool True)]))
        example_page ''/api/youtube/upload_batch'' example_request
        ''video-loading'' ''video-result''))
     = [SetTimeout 500, Fetch ''/api/youtube/upload_batch'' example_request,
        ClassListAdd ''video-loading'' ''active'']"
proof -
  have present: "example_page ''video-loading'' = Some blank"
    by (simp add: example_page_def)
  from indicator_follows_dispatch [of example_page "''video-loading''" blank, OF this] present
  show ?thesis by blast
qed

text \<open>
  C10. When the result target is on the page, a call of \<^verbatim>\<open>makeApiRequest\<close> has emptied
  it by the end of its synchronous part, that is before any response is looked at; emptying
  it is the last thing the synchronous part does, and the synchronous part is the same
  whatever the network answers.
\<close>

theorem result_target_cleared:
  assumes "d resultId = Some e"
  shows "(\<exists>e'. run (sync_effects (makeApiRequest net d endpoint options loadingId resultId)) d
                  resultId = Some e' \<and> innerHTML e' = [])
       \<and> last (sync_effects (makeApiRequest net d endpoint options loadingId resultId))
         = SetInnerHTML resultId []
       \<and> sync_effects (makeApiRequest net d endpoint options loadingId resultId)
         = sync_effects (makeApiRequest net' d endpoint options loadingId resultId)"
  using assms
  by (cases "d loadingId")
     (auto simp add: makeApiRequest_sync_effects getElementById_def update_element_def)

theorem result_target_cleared_witness:
  "example_page ''video-result'' = Some (blank\<lparr>innerHTML := ''<p>stale</p>''\<rparr>)
   \<and> (\<exists>e'. run (sync_effects (makeApiRequest unreachable example_page
               ''/api/youtube/upload_batch'' example_request ''video-loading'' ''video-result''))
             example_page ''video-result'' = Some e' \<and> innerHTML e' = [])"
proof -
  have present: "example_page ''video-result'' = Some (blank\<lparr>innerHTML := ''<p>stale</p>''\<rparr>)"
    by (simp add: example_page_def)
  from result_target_cleared
         [of example_page "''video-result''" "blank\<lparr>innerHTML := ''<p>stale</p>''\<rparr>", OF this]
       present
  show ?thesis by blast
qed

section \<open>The decision between success and failure\<close>

lemma get_prop_Inl_iff: "(\<exists>e. get_prop v p = Inl e) = (v = Undefined \<or> v = Null)"
  by (cases v) simp_all

lemma get_prop_has_props: "has_props v \<Longrightarrow> get_prop v p = Inr (property v p)"
  by (cases v) (simp_all add: has_props_def property_def)

lemma and_then_Inr [simp]: "and_then (Inr a) f = f a"
  by (simp add: and_then_def)

lemma and_then_Inl [simp]: "and_then (Inl e) f = Inl e"
  by (simp add: and_then_def)

lemma check_response_confirmed:
  "confirmed_success r data \<Longrightarrow> check_response r data = Inr data"
  by (cases "get_prop data ''success''") (simp_all add: check_response_def confirmed_success_def)

lemma failure_Inl: "\<exists>e. failure r data = Inl e"
  by (simp add: failure_def split: sum.splits)

lemma check_response_not_confirmed:
  assumes "\<not> confirmed_success r data"
  shows "check_response r data = failure r data \<or> (\<exists>e. check_response r data = Inl e)"
  using assms
  by (cases "get_prop data ''success''") (simp_all add: check_response_def confirmed_success_def)

lemma check_response_failed:
  assumes "\<not> confirmed_success r data" and "has_props data"
  shows "check_response r data = failure r data"
  using assms
  by (simp add: check_response_def confirmed_success_def get_prop_has_props)

lemma check_response_rejects:
  "\<not> confirmed_success r data \<Longrightarrow> \<exists>e. check_response r data = Inl e"
  using check_response_not_confirmed [of r data] failure_Inl [of r data] by auto

lemma failure_message_given:
  assumes "has_props data" and "property data ''error'' = Str msg" and "msg \<noteq> []"
  shows "failure r data = Inl (Error msg)"
  using assms by (simp add: failure_def get_prop_has_props)

lemma failure_message_status:
  assumes "has_props data" and "\<not> truthy (property data ''error'')"
  shows "failure r data = Inl (Error (''Erreur HTTP '' @ decimal (status r)))"
  using assms by (simp add: failure_def get_prop_has_props)

lemma confirmed_not_null: "confirmed_success r data \<Longrightarrow> data \<noteq> Null"
  by (auto simp add: confirmed_success_def)


lemma makeApiRequest_answered:
  assumes "net endpoint options = Promise tf (Fulfilled r)"
    and "json r = Promise tj (Fulfilled data)"
  shows "makeApiRequest net d endpoint options loadingId resultId =
     \<lparr>sync_effects =
        [SetTimeout 500, Fetch endpoint options]
        @ if_present (getElementById d loadingId) (\<lambda>l. ClassListAdd l ''active'')
        @ if_present (getElementById d resultId) (\<lambda>r. SetInnerHTML r []),
      async_effects =
        (case check_response r data of
           Inr payload \<Rightarrow> []
         | Inl thrown \<Rightarrow>
             ConsoleError (''Erreur API pour '' @ endpoint @ '':'') thrown
             # if_present (getElementById d resultId) (\<lambda>r. showError r (message thrown)))
        @ if_present (getElementById d loadingId) (\<lambda>l. ClassListRemove l ''active''),
      returned =
        Promise (max tf 500 + tj)
          (Fulfilled (case check_response r data of Inr payload \<Rightarrow> payload | Inl thrown \<Rightarrow> Null))\<rparr>"
  using assms by (simp add: makeApiRequest_def try_block_def Let_def)

lemma content_ClassListRemove:
  "content (run (if_present l (\<lambda>l. ClassListRemove l c)) d) i = content d i"
  by (cases l) (simp_all add: content_def update_element_def split: option.splits)

lemma content_SetInnerHTML:
  "d i = Some e \<Longrightarrow> content (run [SetInnerHTML i h] d) i = Some h"
  by (simp add: content_def update_element_def)

lemma run_present: "d i = Some e \<Longrightarrow> \<exists>e'. run xs d i = Some e'"
proof (induction xs arbitrary: d e)
  case Nil
  then show ?case by simp
next
  case (Cons x xs)
  have "\<exists>e'. apply_effect x d i = Some e'"
    using Cons.prems by (cases x) (auto simp add: update_element_def split: option.splits)
  with Cons.IH show ?case by auto
qed

lemma content_after:
  assumes "d i = Some e"
  shows "content (run (pre @ [SetInnerHTML i h] @ if_present l (\<lambda>l. ClassListRemove l c)) d) i
         = Some h"
proof -
  from run_present [of d i e pre] assms obtain e1 where "run pre d i = Some e1"
    by blast
  then have "content (run [SetInnerHTML i h] (run pre d)) i = Some h"
    by (rule content_SetInnerHTML)
  then have "content (run (if_present l (\<lambda>l. ClassListRemove l c))
                        (run [SetInnerHTML i h] (run pre d))) i = Some h"
    by (simp only: content_ClassListRemove)
  then show ?thesis
    by (simp only: run_append)
qed

text \<open>
  C4, as stated: a response counts as a success only if the status is ok and the
  \<^verbatim>\<open>success\<close> field of the payload is \<^verbatim>\<open>true\<close> itself. The code tests
  \<^verbatim>\<open>!data.success\<close>: a payload whose \<^verbatim>\<open>success\<close> field is the number 1 is returned as
  a success.
\<close>

theorem truthy_success_is_accepted:
  "get_prop (Obj [(''success'', Num True ''1'')]) ''success'' = Inr (Num True ''1'')
   \<and> \<not> strict_success
         \<lparr>ok = True, status = 200,
          json = Promise 0 (Fulfilled (Obj [(''success'', Num True ''1'')]))\<rparr>
         (Obj [(''success'', Num True ''1'')])
   \<and> check_response
         \<lparr>ok = True, status = 200,
          json = Promise 0 (Fulfilled (Obj [(''success'', Num True ''1'')]))\<rparr>
         (Obj [(''success'', Num True ''1'')])
       = Inr (Obj [(''success'', Num True ''1'')])
   \<and> returned (makeApiRequest (replies 120 True 200 (Obj [(''success'', Num True ''1'')]))
         example_page ''/api/youtube/upload_batch'' example_request
         ''video-loading'' ''video-result'')
       = Promise 500 (Fulfilled (Obj [(''success'', Num True ''1'')]))"
  by (simp add: strict_success_def check_response_def makeApiRequest_def try_block_def
        replies_def Let_def)

text \<open>
  C4, amended. When the request is answered and the body parsed, \<^verbatim>\<open>makeApiRequest\<close>
  takes the response for a success if and only if the status is ok and the \<^verbatim>\<open>success\<close>
  field of the payload is truthy: then the payload is returned and nothing is rendered
  into the result target. Otherwise \<^verbatim>\<open>null\<close> is returned; and when the payload is not
  \<^verbatim>\<open>null\<close>, the message rendered into the result target, in the frame of
  \<^verbatim>\<open>showError\<close>, is the error string of the payload when there is one and it is not
  empty, and else, the error being absent or falsy, \<^verbatim>\<open>Erreur HTTP\<close> followed by the
  status code.
\<close>

theorem normalizer_rule:
  fixes net d endpoint options loadingId resultId
  defines "c \<equiv> makeApiRequest net d endpoint options loadingId resultId"
  assumes "net endpoint options = Promise tf (Fulfilled r)"
    and "json r = Promise tj (Fulfilled data)"
    and "d resultId = Some e"
  shows \<open>(confirmed_success r data \<longrightarrow>
            returned c = Promise (max tf 500 + tj) (Fulfilled data)
          \<and> content (run (sync_effects c @ async_effects c) d) resultId = Some [])
       \<and> (\<not> confirmed_success r data \<longrightarrow>
            returned c = Promise (max tf 500 + tj) (Fulfilled Null))
       \<and> (\<not> confirmed_success r data \<and> has_props data
            \<and> property data ''error'' = Str msg \<and> msg \<noteq> [] \<longrightarrow>
            content (run (sync_effects c @ async_effects c) d) resultId =
              Some (nl @ ''        <div class="horoscope-result" style="border-color: #ff4444;">'' @ nl
                    @ ''            <div class="horoscope-text" style="color: #ff4444;">'' @ nl
                    @ ''                <strong>'' @ cross_mark @ '' Erreur:</strong> '' @ msg @ nl
                    @ ''            </div>'' @ nl
                    @ ''        </div>'' @ nl
                    @ ''    ''))
       \<and> (\<not> confirmed_success r data \<and> has_props data
            \<and> \<not> truthy (property data ''error'') \<longrightarrow>
            content (run (sync_effects c @ async_effects c) d) resultId =
              Some (nl @ ''        <div class="horoscope-result" style="border-color: #ff4444;">'' @ nl
                    @ ''            <div class="horoscope-text" style="color: #ff4444;">'' @ nl
                    @ ''                <strong>'' @ cross_mark @ '' Erreur:</strong> ''
                    @ ''Erreur HTTP '' @ decimal (status r) @ nl
                    @ ''            </div>'' @ nl
                    @ ''        </div>'' @ nl
                    @ ''    ''))\<close>
proof -
  note call = makeApiRequest_answered [of net endpoint options tf r tj data d loadingId resultId,
      OF assms(2,3), folded c_def]
  have target: "getElementById d resultId = Some resultId"
    using assms(4) by (simp add: getElementById_def)
  have accepted: "confirmed_success r data \<Longrightarrow>
      returned c = Promise (max tf 500 + tj) (Fulfilled data)
      \<and> content (run (sync_effects c @ async_effects c) d) resultId = Some []"
  proof -
    assume "confirmed_success r data"
    then have checked: "check_response r data = Inr data"
      by (rule check_response_confirmed)
    have effects: "sync_effects c @ async_effects c =
            ([SetTimeout 500, Fetch endpoint options]
              @ if_present (getElementById d loadingId) (\<lambda>l. ClassListAdd l ''active''))
            @ [SetInnerHTML resultId []]
            @ if_present (getElementById d loadingId) (\<lambda>l. ClassListRemove l ''active'')"
      by (simp add: call checked target)
    have "content (run (sync_effects c @ async_effects c) d) resultId = Some []"
      unfolding effects using assms(4) by (rule content_after)
    then show ?thesis
      by (simp add: call checked)
  qed
  have rejected: "\<not> confirmed_success r data \<Longrightarrow>
      returned c = Promise (max tf 500 + tj) (Fulfilled Null)"
    using check_response_rejects [of r data] by (auto simp add: call)
  have shown: \<open>content (run (sync_effects c @ async_effects c) d) resultId =
        Some (nl @ ''        <div class="horoscope-result" style="border-color: #ff4444;">'' @ nl
              @ ''            <div class="horoscope-text" style="color: #ff4444;">'' @ nl
              @ ''                <strong>'' @ cross_mark @ '' Erreur:</strong> '' @ m @ nl
              @ ''            </div>'' @ nl
              @ ''        </div>'' @ nl
              @ ''    '')\<close>
    if "check_response r data = Inl (Error m)" for m
  proof -
    have effects: \<open>sync_effects c @ async_effects c =
            (sync_effects c @ [ConsoleError (''Erreur API pour '' @ endpoint @ '':'') (Error m)])
            @ [SetInnerHTML resultId
                 (nl @ ''        <div class="horoscope-result" style="border-color: #ff4444;">'' @ nl
                  @ ''            <div class="horoscope-text" style="color: #ff4444;">'' @ nl
                  @ ''                <strong>'' @ cross_mark @ '' Erreur:</strong> '' @ m @ nl
                  @ ''            </div>'' @ nl
                  @ ''        </div>'' @ nl
                  @ ''    '')]
            @ if_present (getElementById d loadingId) (\<lambda>l. ClassListRemove l ''active'')\<close>
      by (simp add: call that target showError_def)
    show ?thesis
      unfolding effects using assms(4) by (rule content_after)
  qed
  have given: "\<not> confirmed_success r data \<and> has_props data
         \<and> property data ''error'' = Str msg \<and> msg \<noteq> [] \<Longrightarrow>
       check_response r data = Inl (Error msg)"
    by (simp add: check_response_failed failure_message_given)
  have derived: "\<not> confirmed_success r data \<and> has_props data
         \<and> \<not> truthy (property data ''error'') \<Longrightarrow>
       check_response r data = Inl (Error (''Erreur HTTP '' @ decimal (status r)))"
    by (simp add: check_response_failed failure_message_status)
  from accepted rejected shown [OF given] shown [OF derived] show ?thesis
    by (simp del: run_Cons run_append append_assoc)
qed


theorem normalizer_rule_witness:
  \<open>content
      (run (sync_effects (makeApiRequest
               (replies 120 False 500 (Obj [(''success'', Bool False), (''error'', Str ''boom'')]))
               example_page ''/api/youtube/upload_batch'' example_request
               ''video-loading'' ''video-result'')
            @ async_effects (makeApiRequest
               (replies 120 False 500 (Obj [(''success'', Bool False), (''error'', Str ''boom'')]))
               example_page ''/api/youtube/upload_batch'' example_request
               ''video-loading'' ''video-result''))
         example_page) ''video-result''
    = Some ([CHR 0x0A]
            @ ''        <div class="horoscope-result" style="border-color: #ff4444;">'' @ [CHR 0x0A]
            @ ''            <div class="horoscope-text" style="color: #ff4444;">'' @ [CHR 0x0A]
            @ ''                <strong>'' @ [CHR 0xE2, CHR 0x9D, CHR 0x8C]
            @ '' Erreur:</strong> boom'' @ [CHR 0x0A]
            @ ''            </div>'' @ [CHR 0x0A]
            @ ''        </div>'' @ [CHR 0x0A]
            @ ''    '')
   \<and> content
      (run (sync_effects (makeApiRequest (replies 120 True 404 (Obj [(''success'', Bool False)]))
               example_page ''/api/youtube/upload_batch'' example_request
               ''video-loading'' ''video-result'')
            @ async_effects (makeApiRequest (replies 120 True 404 (Obj [(''success'', Bool False)]))
               example_page ''/api/youtube/upload_batch'' example_request
               ''video-loading'' ''video-result''))
         example_page) ''video-result''
    = Some ([CHR 0x0A]
            @ ''        <div class="horoscope-result" style="border-color: #ff4444;">'' @ [CHR 0x0A]
            @ ''            <div class="horoscope-text" style="color: #ff4444;">'' @ [CHR 0x0A]
            @ ''                <strong>'' @ [CHR 0xE2, CHR 0x9D, CHR 0x8C]
            @ '' Erreur:</strong> Erreur HTTP 404'' @ [CHR 0x0A]
            @ ''            </div>'' @ [CHR 0x0A]
            @ ''        </div>'' @ [CHR 0x0A]
            @ ''    '')\<close>
proof -
  let ?boom = "Obj [(''success'', Bool False), (''error'', Str ''boom'')]"
  let ?bare = "Obj [(''success'', Bool False)]"
  let ?r1 = "\<lparr>ok = False, status = 500, json = Promise 0 (Fulfilled ?boom)\<rparr>"
  let ?r2 = "\<lparr>ok = True, status = 404, json = Promise 0 (Fulfilled ?bare)\<rparr>"
  have target: "example_page ''video-result'' = Some (blank\<lparr>innerHTML := ''<p>stale</p>''\<rparr>)"
    by (simp add: example_page_def)
  have "replies 120 False 500 ?boom ''/api/youtube/upload_batch'' example_request
          = Promise 120 (Fulfilled ?r1)"
    and "json ?r1 = Promise 0 (Fulfilled ?boom)"
    and "\<not> confirmed_success ?r1 ?boom"
    and "has_props ?boom" and "property ?boom ''error'' = Str ''boom''"
    by (simp_all add: replies_def confirmed_success_def has_props_def property_def)
  with target
    normalizer_rule [where net = "replies 120 False 500 ?boom"
      and endpoint = "''/api/youtube/upload_batch''" and options = example_request
      and tf = 120 and r = ?r1 and tj = 0 and data = ?boom and d = example_page
      and resultId = "''video-result''" and e = "blank\<lparr>innerHTML := ''<p>stale</p>''\<rparr>"
      and msg = "''boom''" and loadingId = "''video-loading''"]
  have given: "content
      (run (sync_effects (makeApiRequest (replies 120 False 500 ?boom)
               example_page ''/api/youtube/upload_batch'' example_request
               ''video-loading'' ''video-result'')
            @ async_effects (makeApiRequest (replies 120 False 500 ?boom)
               example_page ''/api/youtube/upload_batch'' example_request
               ''video-loading'' ''video-result''))
         example_page) ''video-result''
    = Some (nl @ ''        <div class='' @ [CHR 0x22] @ ''horoscope-result'' @ [CHR 0x22]
            @ '' style='' @ [CHR 0x22] @ ''border-color: #ff4444;'' @ [CHR 0x22] @ ''>'' @ nl
            @ ''            <div class='' @ [CHR 0x22] @ ''horoscope-text'' @ [CHR 0x22]
            @ '' style='' @ [CHR 0x22] @ ''color: #ff4444;'' @ [CHR 0x22] @ ''>'' @ nl
            @ ''                <strong>'' @ cross_mark @ '' Erreur:</strong> '' @ ''boom'' @ nl
            @ ''            </div>'' @ nl
            @ ''        </div>'' @ nl
            @ ''    '')"
    by (simp del: run_Cons run_append append_assoc)
  have "replies 120 True 404 ?bare ''/api/youtube/upload_batch'' example_request
          = Promise 120 (Fulfilled ?r2)"
    and "json ?r2 = Promise 0 (Fulfilled ?bare)"
    and "\<not> confirmed_success ?r2 ?bare"
    and "has_props ?bare" and "\<not> truthy (property ?bare ''error'')"
    by (simp_all add: replies_def confirmed_success_def has_props_def property_def)
  with target
    normalizer_rule [where net = "replies 120 True 404 ?bare"
      and endpoint = "''/api/youtube/upload_batch''" and options = example_request
      and tf = 120 and r = ?r2 and tj = 0 and data = ?bare and d = example_page
      and resultId = "''video-result''" and e = "blank\<lparr>innerHTML := ''<p>stale</p>''\<rparr>"
      and msg = "[]" and loadingId = "''video-loading''"]
  have derived: "content
      (run (sync_effects (makeApiRequest (replies 120 True 404 ?bare)
               example_page ''/api/youtube/upload_batch'' example_request
               ''video-loading'' ''video-result'')
            @ async_effects (makeApiRequest (replies 120 True 404 ?bare)
               example_page ''/api/youtube/upload_batch'' example_request
               ''video-loading'' ''video-result''))
         example_page) ''video-result''
    = Some (nl @ ''        <div class='' @ [CHR 0x22] @ ''horoscope-result'' @ [CHR 0x22]
            @ '' style='' @ [CHR 0x22] @ ''border-color: #ff4444;'' @ [CHR 0x22] @ ''>'' @ nl
            @ ''            <div class='' @ [CHR 0x22] @ ''horoscope-text'' @ [CHR 0x22]
            @ '' style='' @ [CHR 0x22] @ ''color: #ff4444;'' @ [CHR 0x22] @ ''>'' @ nl
            @ ''                <strong>'' @ cross_mark @ '' Erreur:</strong> ''
            @ ''Erreur HTTP '' @ decimal 404 @ nl
            @ ''            </div>'' @ nl
            @ ''        </div>'' @ nl
            @ ''    '')"
    by (simp del: run_Cons run_append append_assoc)
  have "decimal 404 = ''404''"
    by code_simp
  with given derived show ?thesis
    by (simp add: nl_def cross_mark_def del: run_Cons run_append)
qed


text \<open>
  C5. The promise \<^verbatim>\<open>makeApiRequest\<close> returns is always fulfilled, never rejected: with
  the parsed payload when the request was answered, its body parsed and the response
  confirmed successful, and with \<^verbatim>\<open>null\<close> in every other case (a rejected
  \<^verbatim>\<open>fetch\<close>, a body that does not parse, a status that is not ok, a falsey success
  flag). A confirmed payload is never \<^verbatim>\<open>null\<close>, so the two cannot be confused.
\<close>

theorem makeApiRequest_returns_payload_or_null:
  "(\<exists>t. returned (makeApiRequest net d endpoint options loadingId resultId) =
      Promise t (Fulfilled (case confirmed_payload (net endpoint options) of
                              Some data \<Rightarrow> data
                            | None \<Rightarrow> Null)))
   \<and> confirmed_payload (net endpoint options) \<noteq> Some Null"
proof -
  obtain tf s where fetched: "net endpoint options = Promise tf s"
    by (cases "net endpoint options")
  show ?thesis
  proof (cases s)
    case (Rejected e)
    with fetched show ?thesis
      by (simp add: makeApiRequest_def try_block_def Let_def confirmed_payload_def)
  next
    case (Fulfilled r)
    obtain tj sj where body: "json r = Promise tj sj"
      by (cases "json r")
    show ?thesis
    proof (cases sj)
      case (Rejected e)
      with fetched Fulfilled body show ?thesis
        by (simp add: makeApiRequest_def try_block_def Let_def confirmed_payload_def)
    next
      case inner: (Fulfilled data)
      show ?thesis
      proof (cases "confirmed_success r data")
        case True
        with fetched Fulfilled body inner check_response_confirmed [OF True]
          confirmed_not_null [OF True]
        show ?thesis
          by (simp add: makeApiRequest_def try_block_def Let_def confirmed_payload_def)
      next
        case False
        with check_response_rejects obtain e where "check_response r data = Inl e"
          by blast
        with False fetched Fulfilled body inner show ?thesis
          by (simp add: makeApiRequest_def try_block_def Let_def confirmed_payload_def)
      qed
    qed
  qed
qed

section \<open>Refreshing the model list\<close>

lemma seq_None: "fst (s1 w) = None \<Longrightarrow> seq s1 s2 w = s2 (snd (s1 w))"
  by (cases "s1 w") (simp add: seq_def)

lemma dom_write_Some:
  "dom_write (Some i) x f w = (None, w\<lparr>page := update_element i f (page w)\<rparr>)"
  by (simp add: dom_write_def)

lemma append_options_Some:
  "fst (append_options (Some i) ms w) = None
   \<and> app (snd (append_options (Some i) ms w)) = app w
   \<and> localStorage (snd (append_options (Some i) ms w)) = localStorage w"
  by (induction ms arbitrary: w) (simp_all add: assign_def seq_def dom_write_Some split: prod.splits option.splits)

lemma savedModel_cong:
  "localStorage w' = localStorage w \<Longrightarrow> selectedModel (app w') = selectedModel (app w)
   \<Longrightarrow> savedModel w' = savedModel w"
  by (simp add: savedModel_def split: option.splits)

lemma validate_selection_Some:
  "fst (validate_selection (Some i) ms w) = None
   \<and> app (snd (validate_selection (Some i) ms w))
       = (app w)\<lparr>selectedModel := (if savedModel w \<in> set ms then savedModel w else ms ! 0)\<rparr>
   \<and> localStorage (snd (validate_selection (Some i) ms w)) = localStorage w"
  by (simp add: validate_selection_def Let_def list_ex_iff seq_def dom_write_Some assign_def)

lemma accept_models_Some:
  assumes "models data = Some ms" and "success data" and "ms \<noteq> []"
  shows "fst (accept_models (Some dot) (Some txt) (Some sel) data w) = None
   \<and> app (snd (accept_models (Some dot) (Some txt) (Some sel) data w))
       = (app w)\<lparr>availableModels := ms, selectedModel :=
                     (if savedModel w \<in> set ms then savedModel w else ms ! 0)\<rparr>
   \<and> localStorage (snd (accept_models (Some dot) (Some txt) (Some sel) data w)) = localStorage w"
proof -
  define w2 where
    "w2 = w\<lparr>app := (app w)\<lparr>availableModels := ms\<rparr>,
            page := update_element sel clear_select (page w)\<rparr>"
  define w3 where "w3 = snd (append_options (Some sel) ms w2)"
  define w4 where "w4 = snd (validate_selection (Some sel) ms w3)"
  have a3: "fst (append_options (Some sel) ms w2) = None"
    and app3: "app w3 = app w2" and ls3: "localStorage w3 = localStorage w2"
    using append_options_Some [of sel ms w2] by (simp_all add: w3_def)
  have saved: "savedModel w3 = savedModel w"
    by (rule savedModel_cong) (simp_all add: app3 ls3 w2_def)
  have a4: "fst (validate_selection (Some sel) ms w3) = None"
    and app4: "app w4 = (app w3)\<lparr>selectedModel :=
                 (if savedModel w \<in> set ms then savedModel w else ms ! 0)\<rparr>"
    and ls4: "localStorage w4 = localStorage w3"
    using validate_selection_Some [of sel ms w3] by (simp_all add: w4_def saved)
  have "accept_models (Some dot) (Some txt) (Some sel) data w =
          seq (dom_write (Some dot) (cannot ''set'' ''null'' ''setting'' ''className'')
                  (\<lambda>e. e\<lparr>classList := [''status-dot'', ''connected'']\<rparr>))
              (dom_write (Some txt) (cannot ''set'' ''null'' ''setting'' ''textContent'')
                  (\<lambda>e. e\<lparr>textContent := decimal (length ms) @ '' mod'' @ e_grave @ ''les''\<rparr>))
              w4"
    using assms a3 a4
    by (simp add: accept_models_def seq_None assign_def dom_write_Some w2_def w3_def w4_def)
  then show ?thesis
    by (simp add: seq_def dom_write_Some app4 app3 ls4 ls3 w2_def)
qed

lemma try_catch_None: "fst (body w) = None \<Longrightarrow> try_catch body handler w = body w"
  by (cases "body w") (simp add: try_catch_def)

lemma try_catch_Some: "body w = (Some e, w1) \<Longrightarrow> try_catch body handler w = handler e w1"
  by (simp add: try_catch_def)

lemma loadAvailableModels_success:
  assumes "page w ''model-status-dot'' = Some e1"
    and "page w ''model-status-text'' = Some e2"
    and "page w ''global-model-select'' = Some e3"
    and "fetched = Promise t (Fulfilled r)"
    and "json r = Promise u (Fulfilled data)"
    and "models data = Some ms" and "success data" and "ms \<noteq> []"
  shows "fst (loadAvailableModels fetched w) = None
   \<and> app (snd (loadAvailableModels fetched w))
       = (app w)\<lparr>availableModels := ms, selectedModel :=
                     (if savedModel w \<in> set ms then savedModel w else ms ! 0)\<rparr>
   \<and> localStorage (snd (loadAvailableModels fetched w)) = localStorage w"
proof -
  let ?body = "accept_models (Some ''model-status-dot'') (Some ''model-status-text'')
                 (Some ''global-model-select'') data"
  note accepted = accept_models_Some [OF assms(6-8), of "''model-status-dot''"
      "''model-status-text''" "''global-model-select''" w]
  then have "fst (?body w) = None"
    by blast
  then have "loadAvailableModels fetched w = ?body w"
    using assms(1-5)
    by (simp add: loadAvailableModels_def getElementById_def Let_def try_catch_None)
  with accepted show ?thesis
    by simp
qed

lemma getElementById_present: "d i = Some e \<Longrightarrow> getElementById d i = Some i"
  by (simp add: getElementById_def)

lemma accept_models_rejects:
  assumes "\<not> success data \<or> models data = None \<or> models data = Some []"
  shows "accept_models dot txt sel data w = (Some (no_models data), w)"
  using assms by (auto simp add: accept_models_def throw_def split: option.splits)

lemma mark_offline:
  assumes "page w ''model-status-dot'' = Some e1" and "page w ''model-status-text'' = Some e2"
  shows "seq (dom_write (Some ''model-status-dot'') x1
                (\<lambda>e. e\<lparr>classList := [''status-dot'', ''error'']\<rparr>))
             (dom_write (Some ''model-status-text'') x2
                (\<lambda>e. e\<lparr>textContent := ''Ollama offline''\<rparr>)) w
         = (None, w\<lparr>page := (page w)
               (''model-status-dot'' \<mapsto> e1\<lparr>classList := [''status-dot'', ''error'']\<rparr>,
                ''model-status-text'' \<mapsto> e2\<lparr>textContent := ''Ollama offline''\<rparr>)\<rparr>)"
  using assms by (simp add: seq_def dom_write_Some update_element_def)

lemma loadAvailableModels_failure:
  assumes "page w ''model-status-dot'' = Some e1" and "page w ''model-status-text'' = Some e2"
    and "refresh_fails fetched"
  shows "loadAvailableModels fetched w
         = (None, w\<lparr>page := (page w)
               (''model-status-dot'' \<mapsto> e1\<lparr>classList := [''status-dot'', ''error'']\<rparr>,
                ''model-status-text'' \<mapsto> e2\<lparr>textContent := ''Ollama offline''\<rparr>)\<rparr>)"
proof -
  define sel where "sel = getElementById (page w) ''global-model-select''"
  let ?body = "case fetched of
              Promise t (Rejected e) \<Rightarrow> throw e
            | Promise t (Fulfilled response) \<Rightarrow>
                (case json response of
                   Promise u (Rejected e) \<Rightarrow> throw e
                 | Promise u (Fulfilled data) \<Rightarrow>
                     accept_models (Some ''model-status-dot'') (Some ''model-status-text'')
                       sel data)"
  have "\<exists>e. ?body w = (Some e, w)"
    using assms(3)
    by (auto simp add: refresh_fails_def throw_def accept_models_rejects
          split: promise.splits settled.splits)
  then obtain e where "?body w = (Some e, w)"
    by blast
  then have "loadAvailableModels fetched w =
      seq (dom_write (Some ''model-status-dot'') (cannot ''set'' ''null'' ''setting'' ''className'')
                (\<lambda>e. e\<lparr>classList := [''status-dot'', ''error'']\<rparr>))
          (dom_write (Some ''model-status-text'') (cannot ''set'' ''null'' ''setting'' ''textContent'')
                (\<lambda>e. e\<lparr>textContent := ''Ollama offline''\<rparr>)) w"
    using assms(1,2)
    by (simp add: loadAvailableModels_def getElementById_present Let_def try_catch_Some
          flip: sel_def)
  then show ?thesis
    using mark_offline [OF assms(1,2)] by simp
qed

text \<open>Refreshes that fail, however many, leave the application state and the storage alone.\<close>

lemma failed_refreshes_keep_app:
  assumes "page w ''model-status-dot'' \<noteq> None" and "page w ''model-status-text'' \<noteq> None"
    and "\<forall>fetched \<in> set failures. refresh_fails fetched"
  shows "app (refresh_all failures w) = app w
       \<and> localStorage (refresh_all failures w) = localStorage w"
  using assms
proof (induction failures arbitrary: w)
  case Nil
  then show ?case by simp
next
  case (Cons fetched rest)
  from Cons.prems obtain e1 e2 where
    present: "page w ''model-status-dot'' = Some e1" "page w ''model-status-text'' = Some e2"
    by auto
  let ?w = "snd (loadAvailableModels fetched w)"
  from Cons.prems have "refresh_fails fetched"
    by simp
  note step = loadAvailableModels_failure [OF present this]
  then have "page ?w ''model-status-dot'' \<noteq> None" and "page ?w ''model-status-text'' \<noteq> None"
    and "app ?w = app w" and "localStorage ?w = localStorage w"
    by simp_all
  with Cons.IH [of ?w] Cons.prems show ?case
    by simp
qed

text \<open>
  C6. The selected model is at first the default written in the source, and it still is
  after any number of refreshes that failed. After a successful refresh (the page has the
  status elements and the selector, the request is answered with a successful payload that
  lists at least one model) the available models are those of the payload and the selected
  model is one of them. It is the stored model name when one is stored and the new list has
  it; with nothing stored, it is the model selected before when the new list has that one;
  and in both cases it is the first model of the new list when the list does not have the
  name.
\<close>

theorem refresh_validates_selection:
  assumes "page w ''model-status-dot'' = Some e1"
    and "page w ''model-status-text'' = Some e2"
    and "page w ''global-model-select'' = Some e3"
    and "fetched = Promise t (Fulfilled r)"
    and "json r = Promise u (Fulfilled data)"
    and "models data = Some ms" and "success data" and "ms \<noteq> []"
  shows "selectedModel initial_appState = ''llama3.1:8b-instruct-q8_0''
       \<and> (list_all refresh_fails failures \<and> app w = initial_appState
            \<longrightarrow> selectedModel (app (refresh_all failures w)) = ''llama3.1:8b-instruct-q8_0'')
       \<and> fst (loadAvailableModels fetched w) = None
       \<and> availableModels (app (snd (loadAvailableModels fetched w))) = ms
       \<and> selectedModel (app (snd (loadAvailableModels fetched w)))
           \<in> set (availableModels (app (snd (loadAvailableModels fetched w))))
       \<and> (localStorage w ''selectedModel'' = Some stored \<and> stored \<noteq> []
            \<longrightarrow> selectedModel (app (snd (loadAvailableModels fetched w)))
                = (if stored \<in> set ms then stored else hd ms))
       \<and> (localStorage w ''selectedModel'' = None \<or> localStorage w ''selectedModel'' = Some []
            \<longrightarrow> selectedModel (app (snd (loadAvailableModels fetched w)))
                = (if selectedModel (app w) \<in> set ms then selectedModel (app w) else hd ms))"
proof -
  have default: "selectedModel initial_appState = ''llama3.1:8b-instruct-q8_0''"
    by (simp add: initial_appState_def)
  have "list_all refresh_fails failures \<Longrightarrow> app (refresh_all failures w) = app w"
    using failed_refreshes_keep_app [of w failures] assms(1,2)
    by (simp add: list_all_iff)
  with default have before:
    "list_all refresh_fails failures \<and> app w = initial_appState
       \<longrightarrow> selectedModel (app (refresh_all failures w)) = ''llama3.1:8b-instruct-q8_0''"
    by simp
  have stored: "savedModel w = stored"
    if "localStorage w ''selectedModel'' = Some stored" and "stored \<noteq> []"
    using that by (simp add: savedModel_def)
  have previous: "savedModel w = selectedModel (app w)"
    if "localStorage w ''selectedModel'' = None \<or> localStorage w ''selectedModel'' = Some []"
    using that by (auto simp add: savedModel_def)
  from \<open>ms \<noteq> []\<close> have "ms ! 0 = hd ms" and "hd ms \<in> set ms"
    by (simp_all add: hd_conv_nth)
  with loadAvailableModels_success [OF assms] default before stored previous show ?thesis
    by auto
qed

theorem refresh_validates_selection_witness:
  "selectedModel (app (snd (loadAvailableModels (lists [''a'', ''b'']) returning_world))) = ''b''
   \<and> selectedModel (app (snd (loadAvailableModels (lists [''a'']) returning_world))) = ''a''
   \<and> selectedModel (app (snd (loadAvailableModels
        (lists [''a'', ''llama3.1:8b-instruct-q8_0'']) fresh_world)))
       = ''llama3.1:8b-instruct-q8_0''
   \<and> selectedModel (app (snd (loadAvailableModels (lists [''a'', ''b'']) fresh_world))) = ''a''
   \<and> availableModels (app (snd (loadAvailableModels (lists [''a'', ''b'']) fresh_world)))
       = [''a'', ''b'']"
proof -
  have rule: "fst (loadAvailableModels (lists ms) w) = None
       \<and> availableModels (app (snd (loadAvailableModels (lists ms) w))) = ms
       \<and> (localStorage w ''selectedModel'' = Some stored \<and> stored \<noteq> []
            \<longrightarrow> selectedModel (app (snd (loadAvailableModels (lists ms) w)))
                = (if stored \<in> set ms then stored else hd ms))
       \<and> (localStorage w ''selectedModel'' = None \<or> localStorage w ''selectedModel'' = Some []
            \<longrightarrow> selectedModel (app (snd (loadAvailableModels (lists ms) w)))
                = (if selectedModel (app w) \<in> set ms then selectedModel (app w) else hd ms))"
    if "page w = example_page" and "ms \<noteq> []" for w ms stored
  proof -
    let ?data = "\<lparr>success = True, models = Some ms, error = None\<rparr>"
    let ?r = "\<lparr>ok = True, status = 200, json = Promise 0 (Fulfilled ?data)\<rparr>"
    have "page w ''model-status-dot'' = Some blank"
      and "page w ''model-status-text'' = Some blank"
      and "page w ''global-model-select'' = Some blank"
      and "lists ms = Promise 80 (Fulfilled ?r)"
      and "json ?r = Promise 0 (Fulfilled ?data)"
      and "models ?data = Some ms" and "success ?data"
      using that(1) by (simp_all add: example_page_def lists_def models_reply_def)
    from refresh_validates_selection [OF this that(2), where stored = stored] show ?thesis
      by blast
  qed
  have returning: "page returning_world = example_page"
    "localStorage returning_world ''selectedModel'' = Some ''b''"
    and fresh: "page fresh_world = example_page"
    "localStorage fresh_world ''selectedModel'' = None"
    "selectedModel (app fresh_world) = ''llama3.1:8b-instruct-q8_0''"
    by (simp_all add: returning_world_def fresh_world_def initial_appState_def)
  from rule [of returning_world "[''a'', ''b'']" "''b''"]
    rule [of returning_world "[''a'']" "''b''"]
    rule [of fresh_world "[''a'', ''llama3.1:8b-instruct-q8_0'']"]
    rule [of fresh_world "[''a'', ''b'']"]
    returning fresh
  show ?thesis
    by simp
qed

text \<open>
  C7. When a refresh fails (the request is rejected, the body does not parse, the payload
  is not successful or lists no model) and the page has the two status elements,
  \<^verbatim>\<open>loadAvailableModels\<close> returns without an exception, the application state, with the
  selected model and the available models, and the storage are what they were, and the
  status shows the error class and the text \<^verbatim>\<open>Ollama offline\<close>.
\<close>

theorem failed_refresh_keeps_state:
  assumes "page w ''model-status-dot'' = Some e1" and "page w ''model-status-text'' = Some e2"
    and "refresh_fails fetched"
  shows "fst (loadAvailableModels fetched w) = None
       \<and> app (snd (loadAvailableModels fetched w)) = app w
       \<and> localStorage (snd (loadAvailableModels fetched w)) = localStorage w
       \<and> (\<exists>e. page (snd (loadAvailableModels fetched w)) ''model-status-dot'' = Some e
              \<and> classList e = [''status-dot'', ''error''])
       \<and> (\<exists>e. page (snd (loadAvailableModels fetched w)) ''model-status-text'' = Some e
              \<and> textContent e = ''Ollama offline'')"
  by (simp add: loadAvailableModels_failure [OF assms])

theorem failed_refresh_keeps_state_witness:
  "refresh_fails (Promise 10 (Rejected (TypeError ''Failed to fetch'')))
   \<and> fst (loadAvailableModels (Promise 10 (Rejected (TypeError ''Failed to fetch''))) fresh_world)
       = None
   \<and> app (snd (loadAvailableModels (Promise 10 (Rejected (TypeError ''Failed to fetch'')))
        fresh_world)) = initial_appState"
proof -
  have "page fresh_world ''model-status-dot'' = Some blank"
    and "page fresh_world ''model-status-text'' = Some blank"
    by (simp_all add: fresh_world_def example_page_def)
  moreover have fails: "refresh_fails (Promise 10 (Rejected (TypeError ''Failed to fetch'')))"
    by (simp add: refresh_fails_def)
  ultimately have "fst (loadAvailableModels (Promise 10 (Rejected (TypeError ''Failed to fetch'')))
        fresh_world) = None
     \<and> app (snd (loadAvailableModels (Promise 10 (Rejected (TypeError ''Failed to fetch'')))
        fresh_world)) = app fresh_world"
    using failed_refresh_keeps_state
      [of fresh_world blank blank "Promise 10 (Rejected (TypeError ''Failed to fetch''))"]
    by blast
  with fails show ?thesis
    by (simp add: fresh_world_def)
qed

text \<open>
  The session above: with nothing stored the first model is selected; the model the user
  picks is selected and stored; it is selected again after the page is loaded anew; and
  when it is no longer listed the first model of the list is selected.
\<close>

lemma selection_scenario:
  "selectedModel (app scenario_1) = ''a''
   \<and> selectedModel (app scenario_2) = ''b''
   \<and> localStorage scenario_2 ''selectedModel'' = Some ''b''
   \<and> selectedModel (app scenario_3) = ''b''
   \<and> selectedModel (app scenario_4) = ''a''"
  by code_simp

section \<open>The confirmation gate of the batch workflows\<close>

lemma prompt_first_comfy:
  "\<exists>prompt rest. effects (generateComfyUIBatchVideos formatFileSize confirmed net d) = Confirm prompt # rest"
  by (simp add: generateComfyUIBatchVideos_def finish_def abort_def Let_def
        split: sum.splits promise.splits settled.splits)

lemma prompt_first_montage:
  "\<exists>prompt rest. effects (generateFullMontage confirmed net d) = Confirm prompt # rest"
  by (simp add: generateFullMontage_def finish_def abort_def Let_def
        split: sum.splits promise.splits settled.splits)

lemma prompt_first_upload:
  "\<exists>prompt rest. effects (uploadBatchToYouTube confirmed net d) = Confirm prompt # rest"
  by (simp add: uploadBatchToYouTube_def finish_def abort_def Let_def
        split: sum.splits promise.splits settled.splits)

text \<open>
  C8. Each of the three batch handlers (the batch of video clips, the full workflow for
  the twelve signs, the batch upload) asks for confirmation before anything else, and
  dispatches a request only if the answer was yes. When the answer is no, the prompt is
  all the handler does: it returns normally, without a request and with the page as it was.
\<close>

theorem batch_needs_confirmation:
  "(dispatches (effects (generateComfyUIBatchVideos formatFileSize confirmed net d))
      \<longrightarrow> confirmed)
   \<and> (dispatches (effects (generateFullMontage confirmed net d)) \<longrightarrow> confirmed)
   \<and> (dispatches (effects (uploadBatchToYouTube confirmed net d)) \<longrightarrow> confirmed)
   \<and> (\<exists>prompt rest. effects (generateComfyUIBatchVideos formatFileSize confirmed net d)
                       = Confirm prompt # rest)
   \<and> (\<exists>prompt rest. effects (generateFullMontage confirmed net d) = Confirm prompt # rest)
   \<and> (\<exists>prompt rest. effects (uploadBatchToYouTube confirmed net d) = Confirm prompt # rest)
   \<and> (\<exists>prompt. effects (generateComfyUIBatchVideos formatFileSize False net d)
                  = [Confirm prompt])
   \<and> (\<exists>prompt. effects (generateFullMontage False net d) = [Confirm prompt])
   \<and> (\<exists>prompt. effects (uploadBatchToYouTube False net d) = [Confirm prompt])
   \<and> completion (generateComfyUIBatchVideos formatFileSize False net d) = Fulfilled ()
   \<and> completion (generateFullMontage False net d) = Fulfilled ()
   \<and> completion (uploadBatchToYouTube False net d) = Fulfilled ()
   \<and> run (effects (generateComfyUIBatchVideos formatFileSize False net d)) d = d
   \<and> run (effects (generateFullMontage False net d)) d = d
   \<and> run (effects (uploadBatchToYouTube False net d)) d = d"
proof -
  have "effects (generateComfyUIBatchVideos formatFileSize False net d)
        = [Confirm (''Lancer la g'' @ e_acute @ ''n'' @ e_acute
                     @ ''ration en lot pour les 12 signes ?'' @ nl
                     @ ''Le processus peut prendre plus de 20 minutes.'')]"
    and "completion (generateComfyUIBatchVideos formatFileSize False net d) = Fulfilled ()"
    by (simp_all add: generateComfyUIBatchVideos_def finish_def)
  moreover have "effects (generateFullMontage False net d)
        = [Confirm (''Lancer le workflow complet pour les 12 signes ?'' @ nl
                     @ ''Le processus peut prendre plus de 30 minutes.'')]"
    and "completion (generateFullMontage False net d) = Fulfilled ()"
    by (simp_all add: generateFullMontage_def finish_def)
  moreover have "effects (uploadBatchToYouTube False net d)
        = [Confirm (''Uploader TOUTES les vid'' @ e_acute
                     @ ''os disponibles sur YouTube en mode PRIV'' @ E_acute @ '' ?'')]"
    and "completion (uploadBatchToYouTube False net d) = Fulfilled ()"
    by (simp_all add: uploadBatchToYouTube_def finish_def)
  ultimately have declined:
    "(dispatches (effects (generateComfyUIBatchVideos formatFileSize confirmed net d))
      \<longrightarrow> confirmed)
   \<and> (dispatches (effects (generateFullMontage confirmed net d)) \<longrightarrow> confirmed)
   \<and> (dispatches (effects (uploadBatchToYouTube confirmed net d)) \<longrightarrow> confirmed)
   \<and> (\<exists>prompt. effects (generateComfyUIBatchVideos formatFileSize False net d)
                  = [Confirm prompt])
   \<and> (\<exists>prompt. effects (generateFullMontage False net d) = [Confirm prompt])
   \<and> (\<exists>prompt. effects (uploadBatchToYouTube False net d) = [Confirm prompt])
   \<and> completion (generateComfyUIBatchVideos formatFileSize False net d) = Fulfilled ()
   \<and> completion (generateFullMontage False net d) = Fulfilled ()
   \<and> completion (uploadBatchToYouTube False net d) = Fulfilled ()
   \<and> run (effects (generateComfyUIBatchVideos formatFileSize False net d)) d = d
   \<and> run (effects (generateFullMontage False net d)) d = d
   \<and> run (effects (uploadBatchToYouTube False net d)) d = d"
    by (cases confirmed) (simp_all add: dispatches_def)
  with prompt_first_comfy [of formatFileSize confirmed net d]
    prompt_first_montage [of confirmed net d] prompt_first_upload [of confirmed net d]
  show ?thesis
    by blast
qed

theorem batch_needs_confirmation_witness:
  "dispatches (effects (uploadBatchToYouTube True unreachable example_page))
   \<and> (\<exists>prompt. effects (uploadBatchToYouTube False unreachable example_page) = [Confirm prompt])
   \<and> completion (uploadBatchToYouTube False unreachable example_page) = Fulfilled ()
   \<and> run (effects (uploadBatchToYouTube False unreachable example_page)) example_page
       = example_page"
proof -
  have "dispatches (effects (uploadBatchToYouTube True unreachable example_page))"
    by (simp add: uploadBatchToYouTube_def makeApiRequest_def try_block_def unreachable_def
          Let_def abort_def finish_def dispatches_def)
  with batch_needs_confirmation [of to_string True unreachable example_page]
  show ?thesis
    by blast
qed

section \<open>The rendering of a batch report\<close>

text \<open>A callback that succeeds on every element gives one entry for each, in order.\<close>

lemma array_map_map:
  "\<forall>x \<in> set xs. f x = Inr (g x) \<Longrightarrow> array_map f xs = Inr (map g xs)"
  by (induction xs) simp_all

text \<open>The loop that appends the entries gives the concatenation of what the map gives.\<close>

lemma forEach_append_array_map:
  "array_map f xs = Inr ys \<Longrightarrow> forEach_append f xs acc = Inr (acc @ concat ys)"
proof (induction xs arbitrary: ys acc)
  case Nil
  then show ?case by simp
next
  case (Cons x xs)
  then obtain y ys' where "f x = Inr y" "array_map f xs = Inr ys'" "ys = y # ys'"
    by (cases "f x"; cases "array_map f xs") auto
  with Cons.IH [of ys' "acc @ y"] show ?case
    by simp
qed

lemma table_text_sign:
  assumes "report_item res"
  shows "get_prop res ''sign'' = Inr (property res ''sign'')"
    and "table_text signNames (property res ''sign'') = Inr (sign_name res)"
proof -
  from assms have "has_props res"
    by (simp add: report_item_def)
  then show "get_prop res ''sign'' = Inr (property res ''sign'')"
    by (rule get_prop_has_props)
  from assms obtain k n where "property res ''sign'' = Str k" and "map_of signNames k = Some n"
    by (auto simp add: report_item_def split: jsval.splits)
  then show "table_text signNames (property res ''sign'') = Inr (sign_name res)"
    by (simp add: table_text_def sign_name_def)
qed

lemma error_text:
  assumes "report_item res" and "\<not> truthy (property res ''success'')"
  shows "to_string (property res ''error'') = Inr (error_message res)"
  using assms by (auto simp add: report_item_def error_message_def split: jsval.splits)

lemma batch_result_item_succeeded:
  assumes "batch_item formatFileSize res" and "truthy (property res ''success'')"
  shows \<open>batch_result_item formatFileSize res
         = Inr (''<li class="success">'' @ nl
                @ ''            <strong>'' @ sign_name res @ '':</strong> '' @ nl
                @ ''            R'' @ e_acute @ ''ussi (''
                @ formatted formatFileSize (file_size res) @ '')'' @ nl
                @ ''        </li>'')\<close>
proof -
  from assms have item: "report_item res" and result: "has_props (property res ''result'')"
    by (simp_all add: batch_item_def)
  from assms obtain printed where printed: "formatFileSize (file_size res) = Inr printed"
    by (auto simp add: batch_item_def split: sum.splits)
  from item have "has_props res"
    by (simp add: report_item_def)
  then have "get_prop res ''success'' = Inr (property res ''success'')"
    and "get_prop res ''result'' = Inr (property res ''result'')"
    by (simp_all add: get_prop_has_props)
  moreover from result
  have "get_prop (property res ''result'') ''file_size'' = Inr (file_size res)"
    by (simp add: get_prop_has_props file_size_def)
  ultimately show ?thesis
    using assms(2) table_text_sign [OF item] printed
    by (simp add: batch_result_item_def formatted_def)
qed

lemma batch_result_item_failed:
  assumes "batch_item formatFileSize res" and "\<not> truthy (property res ''success'')"
  shows \<open>batch_result_item formatFileSize res
         = Inr (''<li class="error">'' @ nl
                @ ''            <strong>'' @ sign_name res @ '':</strong> '' @ nl
                @ ''            '' @ E_acute @ ''chou'' @ e_acute @ '' - ''
                @ error_message res @ nl
                @ ''        </li>'')\<close>
proof -
  from assms have item: "report_item res"
    by (simp add: batch_item_def)
  then have "has_props res"
    by (simp add: report_item_def)
  then have "get_prop res ''success'' = Inr (property res ''success'')"
    and "get_prop res ''error'' = Inr (property res ''error'')"
    by (simp_all add: get_prop_has_props)
  then show ?thesis
    using assms(2) table_text_sign [OF item] error_text [OF item assms(2)]
    by (simp add: batch_result_item_def)
qed

lemma upload_result_item_succeeded:
  assumes "report_item res" and "truthy (property res ''success'')"
  shows "upload_result_item res
         = Inr (''<p>'' @ check_mark @ '' '' @ sign_name res @ '': OK</p>'')"
proof -
  from assms(1) have "has_props res"
    by (simp add: report_item_def)
  then have "get_prop res ''success'' = Inr (property res ''success'')"
    by (simp add: get_prop_has_props)
  then show ?thesis
    using assms(2) table_text_sign [OF assms(1)]
    by (simp add: upload_result_item_def)
qed

lemma upload_result_item_failed:
  assumes "report_item res" and "\<not> truthy (property res ''success'')"
  shows "upload_result_item res
         = Inr (''<p>'' @ cross_mark @ '' '' @ sign_name res @ '': '' @ error_message res
                @ ''</p>'')"
proof -
  from assms(1) have "has_props res"
    by (simp add: report_item_def)
  then have "get_prop res ''success'' = Inr (property res ''success'')"
    and "get_prop res ''error'' = Inr (property res ''error'')"
    by (simp_all add: get_prop_has_props)
  then show ?thesis
    using assms(2) table_text_sign [OF assms(1)] error_text [OF assms]
    by (simp add: upload_result_item_def)
qed


text \<open>
  C9. Both renderings of a batch report (the list of \<^verbatim>\<open>createComfyUIBatchResultHTML\<close>
  and the paragraphs of \<^verbatim>\<open>uploadBatchToYouTube\<close>) are functions of the report, and
  never throw on a report of well-formed items. The callback produces exactly one entry for
  each item, in the order of the items, and the output is the fixed frame around the
  concatenation of these entries. The entry of an item names its sign; the entry of a failed
  item is marked as an error (the class \<^verbatim>\<open>error\<close> in the list, the cross mark in the
  paragraphs) and carries the error message of the item, the entry of a successful one is
  marked as a success.
\<close>

theorem batch_rendering_keeps_every_item:
  fixes formatFileSize :: "jsval \<Rightarrow> exn + string"
  defines \<open>entry \<equiv> \<lambda>res.
      if truthy (property res ''success'')
      then ''<li class="success">'' @ nl
           @ ''            <strong>'' @ sign_name res @ '':</strong> '' @ nl
           @ ''            R'' @ e_acute @ ''ussi (''
           @ formatted formatFileSize (file_size res) @ '')'' @ nl
           @ ''        </li>''
      else ''<li class="error">'' @ nl
           @ ''            <strong>'' @ sign_name res @ '':</strong> '' @ nl
           @ ''            '' @ E_acute @ ''chou'' @ e_acute @ '' - ''
           @ error_message res @ nl
           @ ''        </li>''\<close>
    and \<open>line \<equiv> \<lambda>res.
      if truthy (property res ''success'')
      then ''<p>'' @ check_mark @ '' '' @ sign_name res @ '': OK</p>''
      else ''<p>'' @ cross_mark @ '' '' @ sign_name res @ '': '' @ error_message res
           @ ''</p>''\<close>
  assumes "get_prop data ''results'' = Inr (Arr items)"
    and "get_prop data ''message'' = Inr (Str msg)"
    and "\<forall>res \<in> set items. batch_item formatFileSize res"
    and "get_prop response ''details'' = Inr (Arr details)"
    and "\<forall>res \<in> set details. report_item res"
  shows \<open>array_map (batch_result_item formatFileSize) items = Inr (map entry items)
       \<and> createComfyUIBatchResultHTML formatFileSize data
           = Inr (nl @ ''        <div class="horoscope-result">'' @ nl
                  @ ''            <h3 style="color: #00ff41;">Batch ComfyUI Termin'' @ e_acute
                  @ '' !</h3>'' @ nl
                  @ ''            <p>'' @ msg @ ''</p>'' @ nl
                  @ ''            <ul class="batch-results-list">''
                  @ concat (map entry items) @ ''</ul>'' @ nl
                  @ ''        </div>'')
       \<and> array_map upload_result_item details = Inr (map line details)
       \<and> upload_results_html response
           = Inr (''<div class="horoscope-result"><h3>R'' @ e_acute @ ''sultats de l''
                  @ [CHR 0x27] @ ''Upload Batch</h3>''
                  @ concat (map line details) @ ''</div>'')\<close>
proof -
  have "\<forall>res \<in> set items. batch_result_item formatFileSize res = Inr (entry res)"
    using assms(5) batch_result_item_succeeded [of formatFileSize]
      batch_result_item_failed [of formatFileSize]
    by (simp add: entry_def)
  then have entries: "array_map (batch_result_item formatFileSize) items = Inr (map entry items)"
    by (rule array_map_map)
  with assms(3,4) have list: \<open>createComfyUIBatchResultHTML formatFileSize data
           = Inr (nl @ ''        <div class="horoscope-result">'' @ nl
                  @ ''            <h3 style="color: #00ff41;">Batch ComfyUI Termin'' @ e_acute
                  @ '' !</h3>'' @ nl
                  @ ''            <p>'' @ msg @ ''</p>'' @ nl
                  @ ''            <ul class="batch-results-list">''
                  @ concat (map entry items) @ ''</ul>'' @ nl
                  @ ''        </div>'')\<close>
    by (simp add: createComfyUIBatchResultHTML_def as_array_def)
  have "\<forall>res \<in> set details. upload_result_item res = Inr (line res)"
    using assms(7) upload_result_item_succeeded upload_result_item_failed
    by (simp add: line_def)
  then have lines: "array_map upload_result_item details = Inr (map line details)"
    by (rule array_map_map)
  from assms(6) forEach_append_array_map [OF lines]
  have \<open>upload_results_html response
           = Inr (''<div class="horoscope-result"><h3>R'' @ e_acute @ ''sultats de l''
                  @ [CHR 0x27] @ ''Upload Batch</h3>''
                  @ concat (map line details) @ ''</div>'')\<close>
    by (simp add: upload_results_html_def as_array_def)
  with entries list lines show ?thesis
    by simp
qed

theorem batch_rendering_keeps_every_item_witness:
  \<open>createComfyUIBatchResultHTML in_bytes
      (Obj [(''results'', Arr example_items), (''message'', Str ''2 sur 3'')])
    = Inr ([CHR 0x0A] @ ''        <div class="horoscope-result">'' @ [CHR 0x0A]
           @ ''            <h3 style="color: #00ff41;">Batch ComfyUI Termin''
           @ [CHR 0xC3, CHR 0xA9] @ '' !</h3>'' @ [CHR 0x0A]
           @ ''            <p>2 sur 3</p>'' @ [CHR 0x0A]
           @ ''            <ul class="batch-results-list">''
           @ ''<li class="success">'' @ [CHR 0x0A]
           @ ''            <strong>B'' @ [CHR 0xC3, CHR 0xA9] @ ''lier:</strong> '' @ [CHR 0x0A]
           @ ''            R'' @ [CHR 0xC3, CHR 0xA9] @ ''ussi (2048 B)'' @ [CHR 0x0A]
           @ ''        </li>''
           @ ''<li class="error">'' @ [CHR 0x0A]
           @ ''            <strong>Taureau:</strong> '' @ [CHR 0x0A]
           @ ''            '' @ [CHR 0xC3, CHR 0x89] @ ''chou'' @ [CHR 0xC3, CHR 0xA9]
           @ '' - timeout'' @ [CHR 0x0A]
           @ ''        </li>''
           @ ''<li class="success">'' @ [CHR 0x0A]
           @ ''            <strong>G'' @ [CHR 0xC3, CHR 0xA9] @ ''meaux:</strong> ''
           @ [CHR 0x0A]
           @ ''            R'' @ [CHR 0xC3, CHR 0xA9] @ ''ussi (512 B)'' @ [CHR 0x0A]
           @ ''        </li>''
           @ ''</ul>'' @ [CHR 0x0A]
           @ ''        </div>'')
   \<and> upload_results_html (Obj [(''summary'', Str ''2 sur 3''), (''details'', Arr example_uploads)])
    = Inr (''<div class="horoscope-result"><h3>R'' @ [CHR 0xC3, CHR 0xA9]
           @ ''sultats de l'' @ [CHR 0x27] @ ''Upload Batch</h3>''
           @ ''<p>'' @ [CHR 0xE2, CHR 0x9C, CHR 0x85] @ '' B'' @ [CHR 0xC3, CHR 0xA9]
           @ ''lier: OK</p>''
           @ ''<p>'' @ [CHR 0xE2, CHR 0x9D, CHR 0x8C] @ '' Taureau: quota</p>''
           @ ''<p>'' @ [CHR 0xE2, CHR 0x9C, CHR 0x85] @ '' G'' @ [CHR 0xC3, CHR 0xA9]
           @ ''meaux: OK</p>''
           @ ''</div>'')\<close>
proof -
  let ?data = "Obj [(''results'', Arr example_items), (''message'', Str ''2 sur 3'')]"
  let ?response = "Obj [(''summary'', Str ''2 sur 3''), (''details'', Arr example_uploads)]"
  have "get_prop ?data ''results'' = Inr (Arr example_items)"
    and "get_prop ?data ''message'' = Inr (Str ''2 sur 3'')"
    and "\<forall>res \<in> set example_items. batch_item in_bytes res"
    and "get_prop ?response ''details'' = Inr (Arr example_uploads)"
    and "\<forall>res \<in> set example_uploads. report_item res"
    by (simp_all add: example_items_def example_uploads_def batch_item_def report_item_def
          has_props_def property_def file_size_def in_bytes_def signNames_def)
  from batch_rendering_keeps_every_item [OF this] show ?thesis
    by (simp add: example_items_def example_uploads_def property_def sign_name_def
          error_message_def file_size_def formatted_def in_bytes_def signNames_def
          nl_def e_acute_def E_acute_def check_mark_def cross_mark_def)
qed

text \<open>
  Outside of these items the rendering goes on as the table and the conversions to strings
  decide: a sign that names a property the table inherits prints that property, an unknown
  sign prints \<^verbatim>\<open>undefined\<close>, an error that cannot be converted to a string or a success
  without a result makes the callback throw.
\<close>

lemma rendering_of_other_items:
  \<open>batch_result_item in_bytes
      (Obj [(''sign'', Str ''constructor''), (''success'', Bool False), (''error'', Str ''x'')])
    = Inr (''<li class="error">'' @ [CHR 0x0A]
           @ ''            <strong>function Object() { [native code] }:</strong> ''
           @ [CHR 0x0A]
           @ ''            '' @ [CHR 0xC3, CHR 0x89] @ ''chou'' @ [CHR 0xC3, CHR 0xA9]
           @ '' - x'' @ [CHR 0x0A]
           @ ''        </li>'')\<close>
  \<open>batch_result_item in_bytes
      (Obj [(''sign'', Str ''ophiuchus''), (''success'', Bool False), (''error'', Null)])
    = Inr (''<li class="error">'' @ [CHR 0x0A]
           @ ''            <strong>undefined:</strong> '' @ [CHR 0x0A]
           @ ''            '' @ [CHR 0xC3, CHR 0x89] @ ''chou'' @ [CHR 0xC3, CHR 0xA9]
           @ '' - null'' @ [CHR 0x0A]
           @ ''        </li>'')\<close>
  \<open>batch_result_item in_bytes
      (Obj [(''sign'', Str ''aries''), (''success'', Bool False),
            (''error'', Obj [(''toString'', Num True ''1'')])])
    = Inl (TypeError ''Cannot convert object to primitive value'')\<close>
  \<open>batch_result_item in_bytes (Obj [(''sign'', Str ''aries''), (''success'', Bool True)])
    = Inl (TypeError (''Cannot read properties of undefined (reading ''
                      @ [CHR 0x27] @ ''file_size'' @ [CHR 0x27] @ '')''))\<close>
  by (simp_all add: batch_result_item_def table_text_def signNames_def object_prototype_def
        native_def not_primitive_def cannot_def quoted_def nl_def e_acute_def E_acute_def)

end
